theory Spec2Isabelle
  imports Main "HOL-Library.Word"
begin

section \<open>The signals core: data model\<close>

text \<open>
  The engine of \<^verbatim>\<open>packages/core/src/index.ts\<close> works on three classes of objects
  (\<^verbatim>\<open>Signal\<close>, \<^verbatim>\<open>Computed extends Signal\<close>, \<^verbatim>\<open>Effect\<close>), on dependency
  nodes that sit in two intrusive doubly linked lists at once, and on five module-level
  variables. Objects and nodes are mutated in place and are shared through pointers, so
  the model keeps an explicit store: objects and nodes live in two heaps indexed by
  references, and every function of the source takes the store and returns the new one.

  JavaScript numbers that the engine only counts with (versions, depths, iterations) are
  integers here; the flag word is an integer used bitwise, as in the source.
\<close>

unbundle bit_operations_syntax

type_synonym ref = nat

text \<open>
  Values held by signals and thrown by formulas. \<open>NaN\<close> is the number that is not
  identical to itself. \<open>Error i msg\<close> is an error object: \<open>i\<close> is its identity
  (every \<^verbatim>\<open>new Error\<close> makes another object) and \<open>msg\<close> its message.
\<close>

datatype val = Undefined | Num int | NaN | Error nat string

text \<open>
  Strict equality \<^verbatim>\<open>===\<close> (and \<^verbatim>\<open>!==\<close>, its negation): numbers and
  \<^verbatim>\<open>undefined\<close> by value, \<^verbatim>\<open>NaN\<close> never, objects by identity.
\<close>

definition identical :: "val \<Rightarrow> val \<Rightarrow> bool" where
  "identical a b \<longleftrightarrow> a = b \<and> a \<noteq> NaN"

text \<open>
  User code (the \<^verbatim>\<open>compute\<close> function of a computed, the callback of an effect) is a
  tree of the engine operations it performs: each operation hands its outcome to the rest
  of the code, \<open>Inr v\<close> when it returned \<open>v\<close> and \<open>Inl e\<close> when it threw \<open>e\<close>
  (so the continuation is the \<^verbatim>\<open>try/catch\<close> around the operation, when there is one).
  \<open>Read s\<close> is \<^verbatim>\<open>s.value\<close>, \<open>Peek s\<close> is \<^verbatim>\<open>s.peek()\<close>, \<open>Write s v\<close> is
  \<^verbatim>\<open>s.value = v\<close>.
\<close>

datatype prog =
    Return val
  | Throw val
  | Read ref "val + val \<Rightarrow> prog"
  | Peek ref "val + val \<Rightarrow> prog"
  | Write ref val "val + val \<Rightarrow> prog"

text \<open>An operation outside any \<^verbatim>\<open>try\<close>: what it throws leaves the user code.\<close>

definition uncaught :: "(val \<Rightarrow> prog) \<Rightarrow> val + val \<Rightarrow> prog" where
  "uncaught k r = (case r of Inl e \<Rightarrow> Throw e | Inr v \<Rightarrow> k v)"

datatype kind = Signal | Computed | Effect

text \<open>
  One record for the three classes; \<open>kind\<close> is the class of the object. The fields are
  those of the source with the leading underscore replaced by \<open>o_\<close>: \<open>o_value\<close>,
  \<open>o_version\<close>, \<open>o_node\<close>, \<open>o_targets\<close> (class \<^verbatim>\<open>Signal\<close>), \<open>o_compute\<close>,
  \<open>o_sources\<close>, \<open>o_globalVersion\<close>, \<open>o_flags\<close> (class \<^verbatim>\<open>Computed\<close>), and
  \<open>o_sources\<close>, \<open>o_nextEffect\<close>, \<open>o_flags\<close> (class \<^verbatim>\<open>Effect\<close>, whose user callback
  is kept in \<open>o_compute\<close>).
\<close>

record obj =
  kind :: kind
  o_value :: val
  o_version :: int
  o_node :: "ref option"
  o_targets :: "ref option"
  o_compute :: prog
  o_sources :: "ref option"
  o_globalVersion :: int
  o_flags :: int
  o_nextEffect :: "ref option"

text \<open>The type \<^verbatim>\<open>Node\<close> of the source, field by field.\<close>

record node =
  signal :: ref
  prevSignal :: "ref option"
  nextSignal :: "ref option"
  target :: ref
  prevTarget :: "ref option"
  nextTarget :: "ref option"
  version :: int
  used :: bool
  rollbackNode :: "ref option"

text \<open>
  The store and the module-level variables. \<open>nextObj\<close> and \<open>nextNode\<close> are the
  allocation pointers of the two heaps, and \<open>nextError\<close> is the number of error objects
  that the engine has made.
\<close>

record state =
  objs :: "ref \<Rightarrow> obj"
  nodes :: "ref \<Rightarrow> node"
  nextObj :: ref
  nextNode :: ref
  evalContext :: "ref option"
  batchedEffect :: "ref option"
  batchDepth :: int
  batchIteration :: int
  globalVersion :: int
  nextError :: nat

definition RUNNING :: int where "RUNNING = push_bit 0 1"
definition STALE :: int where "STALE = push_bit 1 1"
definition NOTIFIED :: int where "NOTIFIED = push_bit 2 1"
definition HAS_ERROR :: int where "HAS_ERROR = push_bit 3 1"
definition SHOULD_SUBSCRIBE :: int where "SHOULD_SUBSCRIBE = push_bit 4 1"

text \<open>\<^verbatim>\<open>flags & F\<close> used as a condition.\<close>

definition has :: "int \<Rightarrow> int \<Rightarrow> bool" where
  "has flags f \<longleftrightarrow> flags AND f \<noteq> 0"

text \<open>\<^verbatim>\<open>throw new Error(msg)\<close>: what is thrown is a new object.\<close>

definition throw_Error :: "string \<Rightarrow> state \<Rightarrow> (val + 'a) \<times> state" where
  "throw_Error msg st =
     (Inl (Error (nextError st) msg), st\<lparr>nextError := Suc (nextError st)\<rparr>)"

definition cycleDetected :: "state \<Rightarrow> (val + 'a) \<times> state" where
  "cycleDetected st = throw_Error ''Cycle detected'' st"

definition upd_obj :: "ref \<Rightarrow> (obj \<Rightarrow> obj) \<Rightarrow> state \<Rightarrow> state" where
  "upd_obj r f st = st\<lparr>objs := (objs st)(r := f (objs st r))\<rparr>"

definition upd_node :: "ref \<Rightarrow> (node \<Rightarrow> node) \<Rightarrow> state \<Rightarrow> state" where
  "upd_node r f st = st\<lparr>nodes := (nodes st)(r := f (nodes st r))\<rparr>"

definition upd_node_opt :: "ref option \<Rightarrow> (node \<Rightarrow> node) \<Rightarrow> state \<Rightarrow> state" where
  "upd_node_opt r f st = (case r of None \<Rightarrow> st | Some n \<Rightarrow> upd_node n f st)"

definition set_flags :: "ref \<Rightarrow> int \<Rightarrow> state \<Rightarrow> state" where
  "set_flags r f st = upd_obj r (\<lambda>x. x\<lparr>o_flags := o_flags x OR f\<rparr>) st"

definition clear_flags :: "ref \<Rightarrow> int \<Rightarrow> state \<Rightarrow> state" where
  "clear_flags r f st = upd_obj r (\<lambda>x. x\<lparr>o_flags := o_flags x AND NOT f\<rparr>) st"

section \<open>Subscription lists and notification\<close>

text \<open>\<^verbatim>\<open>Signal.prototype._subscribe\<close>: link the node at the head of the targets list.\<close>

definition Signal_subscribe :: "ref \<Rightarrow> ref \<Rightarrow> state \<Rightarrow> state" where
  "Signal_subscribe s nd st =
     (let st1 = upd_node_opt (o_targets (objs st s)) (\<lambda>n. n\<lparr>prevTarget := Some nd\<rparr>) st;
          st2 = upd_node nd (\<lambda>n. n\<lparr>nextTarget := o_targets (objs st1 s)\<rparr>) st1;
          st3 = upd_node nd (\<lambda>n. n\<lparr>prevTarget := None\<rparr>) st2
      in upd_obj s (\<lambda>x. x\<lparr>o_targets := Some nd\<rparr>) st3)"

text \<open>\<^verbatim>\<open>Signal.prototype._unsubscribe\<close>: splice the node out of the targets list.\<close>

definition Signal_unsubscribe :: "ref \<Rightarrow> ref \<Rightarrow> state \<Rightarrow> state" where
  "Signal_unsubscribe s nd st =
     (let prev = prevTarget (nodes st nd);
          next = nextTarget (nodes st nd);
          st1 = upd_node nd (\<lambda>n. n\<lparr>prevTarget := None\<rparr>) st;
          st2 = upd_node nd (\<lambda>n. n\<lparr>nextTarget := None\<rparr>) st1;
          st3 = upd_node_opt prev (\<lambda>n. n\<lparr>nextTarget := next\<rparr>) st2;
          st4 = upd_node_opt next (\<lambda>n. n\<lparr>prevTarget := prev\<rparr>) st3
      in if Some nd = o_targets (objs st4 s)
         then upd_obj s (\<lambda>x. x\<lparr>o_targets := next\<rparr>) st4 else st4)"

text \<open>
  \<^verbatim>\<open>_subscribe\<close> with its override in \<^verbatim>\<open>Computed\<close>: a computed that gets its
  first subscriber becomes stale and subscribes to its own sources. The walk over the
  sources list follows pointers of the store and the calls recurse into the sources, so
  the functions take fuel: \<open>None\<close> is a call that has not returned within it.
\<close>

fun subscribe :: "nat \<Rightarrow> ref \<Rightarrow> ref \<Rightarrow> state \<Rightarrow> state option"
and subscribe_sources :: "nat \<Rightarrow> ref option \<Rightarrow> state \<Rightarrow> state option" where
  "subscribe 0 s nd st = None"
| "subscribe (Suc n) s nd st =
     (if kind (objs st s) = Computed then
        (if o_targets (objs st s) = None then
           (let st1 = set_flags s (STALE OR SHOULD_SUBSCRIBE) st in
            case subscribe_sources n (o_sources (objs st1 s)) st1 of
              None \<Rightarrow> None
            | Some st2 \<Rightarrow> Some (Signal_subscribe s nd st2))
         else Some (Signal_subscribe s nd st))
      else Some (Signal_subscribe s nd st))"
| "subscribe_sources 0 p st = None"
| "subscribe_sources (Suc n) None st = Some st"
| "subscribe_sources (Suc n) (Some p) st =
     (case subscribe n (signal (nodes st p)) p st of
        None \<Rightarrow> None
      | Some st1 \<Rightarrow> subscribe_sources n (nextSignal (nodes st1 p)) st1)"

text \<open>
  \<^verbatim>\<open>_unsubscribe\<close> with its override in \<^verbatim>\<open>Computed\<close>: a computed that loses its
  last subscriber unsubscribes from its own sources.
\<close>

fun unsubscribe :: "nat \<Rightarrow> ref \<Rightarrow> ref \<Rightarrow> state \<Rightarrow> state option"
and unsubscribe_sources :: "nat \<Rightarrow> ref option \<Rightarrow> state \<Rightarrow> state option" where
  "unsubscribe 0 s nd st = None"
| "unsubscribe (Suc n) s nd st =
     (let st1 = Signal_unsubscribe s nd st in
      if kind (objs st1 s) = Computed \<and> o_targets (objs st1 s) = None then
        (let st2 = clear_flags s SHOULD_SUBSCRIBE st1 in
         unsubscribe_sources n (o_sources (objs st2 s)) st2)
      else Some st1)"
| "unsubscribe_sources 0 p st = None"
| "unsubscribe_sources (Suc n) None st = Some st"
| "unsubscribe_sources (Suc n) (Some p) st =
     (case unsubscribe n (signal (nodes st p)) p st of
        None \<Rightarrow> None
      | Some st1 \<Rightarrow> unsubscribe_sources n (nextSignal (nodes st1 p)) st1)"

text \<open>
  \<^verbatim>\<open>_notify\<close>: a computed marks itself stale and notified and passes the
  notification on to its targets; an effect puts itself at the front of the queue of
  batched effects. \<open>notify_targets\<close> is the loop over a targets list (in
  \<^verbatim>\<open>Computed.prototype._notify\<close> and in the setter of \<^verbatim>\<open>Signal\<close>).
\<close>

fun notify :: "nat \<Rightarrow> ref \<Rightarrow> state \<Rightarrow> state option"
and notify_targets :: "nat \<Rightarrow> ref option \<Rightarrow> state \<Rightarrow> state option" where
  "notify 0 t st = None"
| "notify (Suc n) t st =
     (if has (o_flags (objs st t)) NOTIFIED then Some st
      else if kind (objs st t) = Effect then
        Some (upd_obj t (\<lambda>x. x\<lparr>o_nextEffect := batchedEffect st\<rparr>) (set_flags t NOTIFIED st)
                \<lparr>batchedEffect := Some t\<rparr>)
      else
        (let st1 = set_flags t (STALE OR NOTIFIED) st in
         notify_targets n (o_targets (objs st1 t)) st1))"
| "notify_targets 0 p st = None"
| "notify_targets (Suc n) None st = Some st"
| "notify_targets (Suc n) (Some p) st =
     (case notify n (target (nodes st p)) st of
        None \<Rightarrow> None
      | Some st1 \<Rightarrow> notify_targets n (nextTarget (nodes st1 p)) st1)"


section \<open>Evaluation contexts: prepare, track, clean up\<close>

text \<open>
  \<^verbatim>\<open>prepareSources\<close>: every node of the target's sources list becomes the current
  node of its signal (the previous one is remembered for the roll-back) and is marked
  unused.
\<close>

fun prepareSources_loop :: "nat \<Rightarrow> ref option \<Rightarrow> state \<Rightarrow> state option" where
  "prepareSources_loop 0 p st = None"
| "prepareSources_loop (Suc n) None st = Some st"
| "prepareSources_loop (Suc n) (Some p) st =
     (let rollback = o_node (objs st (signal (nodes st p)));
          st1 = (if rollback \<noteq> None then upd_node p (\<lambda>x. x\<lparr>rollbackNode := rollback\<rparr>) st
                 else st);
          st2 = upd_obj (signal (nodes st1 p)) (\<lambda>x. x\<lparr>o_node := Some p\<rparr>) st1;
          st3 = upd_node p (\<lambda>x. x\<lparr>used := False\<rparr>) st2
      in prepareSources_loop n (nextSignal (nodes st3 p)) st3)"

definition prepareSources :: "nat \<Rightarrow> ref \<Rightarrow> state \<Rightarrow> state option" where
  "prepareSources n t st = prepareSources_loop n (o_sources (objs st t)) st"

text \<open>
  \<^verbatim>\<open>cleanupSources\<close>: the loop carries the node it looks at and the list
  \<^verbatim>\<open>sources\<close> built so far. A used node is put in front of \<^verbatim>\<open>sources\<close>, an unused
  one is unsubscribed and dropped, and in both cases the signal gets its previous current
  node back.
\<close>

fun cleanupSources_loop ::
  "nat \<Rightarrow> ref option \<Rightarrow> ref option \<Rightarrow> state \<Rightarrow> (ref option \<times> state) option" where
  "cleanupSources_loop 0 p sources st = None"
| "cleanupSources_loop (Suc n) None sources st = Some (sources, st)"
| "cleanupSources_loop (Suc n) (Some p) sources st =
     (let next = nextSignal (nodes st p) in
      case (if used (nodes st p) then
              (let st1 = upd_node_opt sources (\<lambda>x. x\<lparr>prevSignal := Some p\<rparr>) st;
                   st2 = upd_node p (\<lambda>x. x\<lparr>prevSignal := None\<rparr>) st1;
                   st3 = upd_node p (\<lambda>x. x\<lparr>nextSignal := sources\<rparr>) st2
               in Some (Some p, st3))
            else
              (case unsubscribe n (signal (nodes st p)) p st of
                 None \<Rightarrow> None
               | Some st1 \<Rightarrow> Some (sources, upd_node p (\<lambda>x. x\<lparr>nextSignal := None\<rparr>) st1)))
      of None \<Rightarrow> None
       | Some (sources1, st4) \<Rightarrow>
          (let st5 = upd_obj (signal (nodes st4 p))
                       (\<lambda>x. x\<lparr>o_node := rollbackNode (nodes st4 p)\<rparr>) st4;
               st6 = (if rollbackNode (nodes st5 p) \<noteq> None
                      then upd_node p (\<lambda>x. x\<lparr>rollbackNode := None\<rparr>) st5 else st5)
           in cleanupSources_loop n next sources1 st6))"

definition cleanupSources :: "nat \<Rightarrow> ref \<Rightarrow> state \<Rightarrow> state option" where
  "cleanupSources n t st =
     (case cleanupSources_loop n (o_sources (objs st t)) None st of
        None \<Rightarrow> None
      | Some (sources, st1) \<Rightarrow> Some (upd_obj t (\<lambda>x. x\<lparr>o_sources := sources\<rparr>) st1))"

text \<open>
  The first half of \<^verbatim>\<open>getValue\<close> (lines 104 to 155): find or make the node that links
  the signal to the evaluation context. The result is the node whose version the second
  half has to refresh, or \<open>None\<close> when there is no context or the signal was already
  read in this evaluation.
\<close>

definition track :: "nat \<Rightarrow> ref \<Rightarrow> state \<Rightarrow> (ref option \<times> state) option" where
  "track n s st =
     (case evalContext st of
        None \<Rightarrow> Some (None, st)
      | Some ctx \<Rightarrow>
         (let node = o_node (objs st s) in
          if (case node of None \<Rightarrow> True | Some p \<Rightarrow> target (nodes st p) \<noteq> ctx) then
            (let p = nextNode st;
                 st1 = st\<lparr>nodes := (nodes st)(p :=
                          \<lparr>signal = s, prevSignal = None,
                           nextSignal = o_sources (objs st ctx), target = ctx,
                           prevTarget = None, nextTarget = None, version = 0, used = True,
                           rollbackNode = node\<rparr>),
                        nextNode := Suc p\<rparr>;
                 st2 = upd_obj ctx (\<lambda>x. x\<lparr>o_sources := Some p\<rparr>) st1;
                 st3 = upd_obj s (\<lambda>x. x\<lparr>o_node := Some p\<rparr>) st2
             in if has (o_flags (objs st3 ctx)) SHOULD_SUBSCRIBE then
                  (case subscribe n s p st3 of
                     None \<Rightarrow> None
                   | Some st4 \<Rightarrow> Some (Some p, st4))
                else Some (Some p, st3))
          else
            (case node of
               None \<Rightarrow> Some (None, st)
             | Some p \<Rightarrow>
                if \<not> used (nodes st p) then
                  (let st1 = upd_node p (\<lambda>x. x\<lparr>used := True\<rparr>) st;
                       head = o_sources (objs st1 ctx)
                   in if Some p \<noteq> head then
                        (let prev = prevSignal (nodes st1 p);
                             next = nextSignal (nodes st1 p);
                             st2 = upd_node_opt prev (\<lambda>x. x\<lparr>nextSignal := next\<rparr>) st1;
                             st3 = upd_node_opt next (\<lambda>x. x\<lparr>prevSignal := prev\<rparr>) st2;
                             st4 = upd_node_opt head (\<lambda>x. x\<lparr>prevSignal := Some p\<rparr>) st3;
                             st5 = upd_node p (\<lambda>x. x\<lparr>prevSignal := None\<rparr>) st4;
                             st6 = upd_node p (\<lambda>x. x\<lparr>nextSignal := head\<rparr>) st5
                         in Some (Some p, upd_obj ctx (\<lambda>x. x\<lparr>o_sources := Some p\<rparr>) st6))
                      else Some (Some p, st1))
                else Some (None, st))))"

section \<open>Reading, recomputing, writing, batching\<close>

definition startBatch :: "state \<Rightarrow> state" where
  "startBatch st = st\<lparr>batchDepth := batchDepth st + 1\<rparr>"

text \<open>\<^verbatim>\<open>returnComputed\<close>: release \<^verbatim>\<open>RUNNING\<close>, then the cached value or error.\<close>

definition returnComputed :: "ref \<Rightarrow> state \<Rightarrow> (val + val) \<times> state" where
  "returnComputed c st =
     (let st1 = clear_flags c RUNNING st in
      if has (o_flags (objs st1 c)) HAS_ERROR then (Inl (o_value (objs st1 c)), st1)
      else (Inr (o_value (objs st1 c)), st1))"

text \<open>
  The end of \<^verbatim>\<open>Computed.prototype.peek\<close> (lines 409 to 417): what the formula gave,
  \<open>Inl\<close> an error it threw and \<open>Inr\<close> a value it returned, is stored and the version
  is incremented, or nothing is done.
\<close>

definition store_result :: "ref \<Rightarrow> val + val \<Rightarrow> state \<Rightarrow> state" where
  "store_result c r st =
     (let valueIsError = (case r of Inl _ \<Rightarrow> True | Inr _ \<Rightarrow> False);
          v = (case r of Inl e \<Rightarrow> e | Inr x \<Rightarrow> x)
      in if valueIsError \<or> has (o_flags (objs st c)) HAS_ERROR
            \<or> \<not> identical (o_value (objs st c)) v \<or> o_version (objs st c) = 0
         then
           (let st1 = (if valueIsError then set_flags c HAS_ERROR st
                       else clear_flags c HAS_ERROR st);
                st2 = upd_obj c (\<lambda>x. x\<lparr>o_value := v\<rparr>) st1
            in upd_obj c (\<lambda>x. x\<lparr>o_version := o_version x + 1\<rparr>) st2)
         else st)"

text \<open>The error that a drain remembers: the first one.\<close>

definition first_error :: "val option \<Rightarrow> val + 'a \<Rightarrow> val option" where
  "first_error err r = (case r of Inl e \<Rightarrow> (if err = None then Some e else err) | Inr _ \<Rightarrow> err)"

text \<open>
  The functions that call user code, directly or not, call one another:
  \<^item> \<open>exec\<close> runs user code;
  \<^item> \<open>get_value\<close> and \<open>set_value\<close> are the accessors \<^verbatim>\<open>get value\<close> and
    \<^verbatim>\<open>set value\<close> of \<^verbatim>\<open>Signal\<close>, with their overrides in \<^verbatim>\<open>Computed\<close>;
  \<^item> \<open>getValue\<close> is the function of that name, \<open>peek\<close> is \<^verbatim>\<open>peek\<close> of
    \<^verbatim>\<open>Signal\<close> with its override in \<^verbatim>\<open>Computed\<close>, and \<open>scan\<close> is the loop over
    the sources in the latter, which returns the node it stopped at;
  \<^item> \<open>endBatch\<close> is the function of that name, \<open>drain\<close> its outer loop and
    \<open>run_effects\<close> its inner loop; both carry the error remembered so far;
  \<^item> \<open>effect_callback\<close> is the closure that \<^verbatim>\<open>effect\<close> builds around the user's
    callback (\<^verbatim>\<open>_start\<close>, the callback, and \<^verbatim>\<open>finish\<close> in a \<^verbatim>\<open>finally\<close>), and
    \<open>endEffect\<close> is the function of that name.
  A result is \<open>None\<close> when the call has not returned within the fuel, and otherwise the
  outcome (\<open>Inl\<close> what was thrown) with the store as the call left it.

  Each function is written once, as its body over the functions it calls (the record
  \<open>E\<close>); \<open>engine n\<close> ties them together with fuel \<open>n\<close>, every call using up one
  unit, and \<open>peek n\<close>, \<open>exec n\<close> and so on are its components.
\<close>

record callees =
  e_exec :: "prog \<Rightarrow> state \<Rightarrow> ((val + val) \<times> state) option"
  e_get_value :: "ref \<Rightarrow> state \<Rightarrow> ((val + val) \<times> state) option"
  e_getValue :: "ref \<Rightarrow> state \<Rightarrow> ((val + val) \<times> state) option"
  e_peek :: "ref \<Rightarrow> state \<Rightarrow> ((val + val) \<times> state) option"
  e_scan :: "ref option \<Rightarrow> state \<Rightarrow> (ref option \<times> state) option"
  e_set_value :: "ref \<Rightarrow> val \<Rightarrow> state \<Rightarrow> ((val + unit) \<times> state) option"
  e_endBatch :: "state \<Rightarrow> ((val + unit) \<times> state) option"
  e_drain :: "val option \<Rightarrow> state \<Rightarrow> (val option \<times> state) option"
  e_run_effects :: "ref option \<Rightarrow> val option \<Rightarrow> state \<Rightarrow> (val option \<times> state) option"
  e_effect_callback :: "ref \<Rightarrow> state \<Rightarrow> ((val + unit) \<times> state) option"
  e_endEffect :: "ref \<Rightarrow> ref option \<Rightarrow> state \<Rightarrow> ((val + unit) \<times> state) option"

definition exec_body :: "callees \<Rightarrow> prog \<Rightarrow> state \<Rightarrow> ((val + val) \<times> state) option" where
  "exec_body E p st =
     (case p of
        Return v \<Rightarrow> Some (Inr v, st)
      | Throw e \<Rightarrow> Some (Inl e, st)
      | Read s k \<Rightarrow>
         (case e_get_value E s st of None \<Rightarrow> None | Some (r, st1) \<Rightarrow> e_exec E (k r) st1)
      | Peek s k \<Rightarrow>
         (case e_peek E s st of None \<Rightarrow> None | Some (r, st1) \<Rightarrow> e_exec E (k r) st1)
      | Write s v k \<Rightarrow>
         (case e_set_value E s v st of
            None \<Rightarrow> None
          | Some (r, st1) \<Rightarrow>
             e_exec E (k (case r of Inl e \<Rightarrow> Inl e | Inr _ \<Rightarrow> Inr Undefined)) st1))"

text \<open>
  \<^verbatim>\<open>get value\<close>: a plain signal goes to \<^verbatim>\<open>getValue\<close>; a computed first refuses
  to be read while it is running.
\<close>

definition get_value_body :: "callees \<Rightarrow> ref \<Rightarrow> state \<Rightarrow> ((val + val) \<times> state) option" where
  "get_value_body E s st =
     (if kind (objs st s) = Computed \<and> has (o_flags (objs st s)) RUNNING
      then Some (cycleDetected st)
      else e_getValue E s st)"

text \<open>
  \<^verbatim>\<open>getValue\<close>: the node is found or made by \<open>track\<close>, and after \<^verbatim>\<open>peek\<close>,
  whether it returned or threw (\<^verbatim>\<open>finally\<close>), the node takes the signal's version.
\<close>

definition getValue_body ::
  "nat \<Rightarrow> callees \<Rightarrow> ref \<Rightarrow> state \<Rightarrow> ((val + val) \<times> state) option" where
  "getValue_body n E s st =
     (case track n s st of
        None \<Rightarrow> None
      | Some (node, st1) \<Rightarrow>
         (case e_peek E s st1 of
            None \<Rightarrow> None
          | Some (r, st2) \<Rightarrow>
             Some (r, upd_node_opt node (\<lambda>x. x\<lparr>version := o_version (objs st2 s)\<rparr>) st2)))"

text \<open>
  The second half of \<^verbatim>\<open>Computed.prototype.peek\<close> (lines 393 to 418): the formula is
  run in the evaluation context of the computed, between \<^verbatim>\<open>prepareSources\<close> and
  \<^verbatim>\<open>cleanupSources\<close>, and its outcome, \<open>Inl\<close> what it threw, is stored.
\<close>

definition recompute_body ::
  "nat \<Rightarrow> callees \<Rightarrow> ref \<Rightarrow> state \<Rightarrow> ((val + val) \<times> state) option" where
  "recompute_body n E s st =
     (let prevContext = evalContext st;
          st1 = st\<lparr>evalContext := Some s\<rparr>
      in case prepareSources n s st1 of
           None \<Rightarrow> None
         | Some st2 \<Rightarrow>
            (case e_exec E (o_compute (objs st2 s)) st2 of
               None \<Rightarrow> None
             | Some (r, st3) \<Rightarrow>
                (case cleanupSources n s st3 of
                   None \<Rightarrow> None
                 | Some st4 \<Rightarrow>
                    Some (returnComputed s
                            (store_result s r (st4\<lparr>evalContext := prevContext\<rparr>))))))"

text \<open>
  \<^verbatim>\<open>peek\<close>: of a plain signal, its value; of a computed, the fast paths, the scan of
  the sources, and the recomputation.
\<close>

definition peek_body :: "nat \<Rightarrow> callees \<Rightarrow> ref \<Rightarrow> state \<Rightarrow> ((val + val) \<times> state) option" where
  "peek_body n E s st =
     (if kind (objs st s) \<noteq> Computed then Some (Inr (o_value (objs st s)), st)
      else
        (let st1 = clear_flags s NOTIFIED st in
         if has (o_flags (objs st1 s)) RUNNING then Some (cycleDetected st1)
         else
           (let st2 = set_flags s RUNNING st1 in
            if \<not> has (o_flags (objs st2 s)) STALE \<and> o_targets (objs st2 s) \<noteq> None
            then Some (returnComputed s st2)
            else
              (let st3 = clear_flags s STALE st2 in
               if o_globalVersion (objs st3 s) = globalVersion st3
               then Some (returnComputed s st3)
               else
                 (let st4 = upd_obj s (\<lambda>x. x\<lparr>o_globalVersion := globalVersion st3\<rparr>) st3 in
                  case (if o_version (objs st4 s) > 0
                        then e_scan E (o_sources (objs st4 s)) st4
                        else Some (o_sources (objs st4 s), st4))
                  of None \<Rightarrow> None
                   | Some (node, st5) \<Rightarrow>
                      if o_version (objs st4 s) > 0 \<and> node = None
                      then Some (returnComputed s st5)
                      else recompute_body n E s st5)))))"

text \<open>
  The loop of \<^verbatim>\<open>peek\<close> over the sources (lines 372 to 387). What a source's
  \<^verbatim>\<open>peek\<close> throws is dropped.
\<close>

definition scan_body :: "callees \<Rightarrow> ref option \<Rightarrow> state \<Rightarrow> (ref option \<times> state) option" where
  "scan_body E node st =
     (case node of
        None \<Rightarrow> Some (None, st)
      | Some p \<Rightarrow>
         if o_version (objs st (signal (nodes st p))) \<noteq> version (nodes st p)
         then Some (Some p, st)
         else
           (case e_peek E (signal (nodes st p)) st of
              None \<Rightarrow> None
            | Some (r, st1) \<Rightarrow>
               if o_version (objs st1 (signal (nodes st1 p))) \<noteq> version (nodes st1 p)
               then Some (Some p, st1)
               else e_scan E (nextSignal (nodes st1 p)) st1))"

text \<open>
  \<^verbatim>\<open>set value\<close>: a computed is read-only; a plain signal compares, guards, stores,
  and notifies its targets between \<^verbatim>\<open>startBatch\<close> and \<^verbatim>\<open>endBatch\<close>.
\<close>

definition set_value_body ::
  "nat \<Rightarrow> callees \<Rightarrow> ref \<Rightarrow> val \<Rightarrow> state \<Rightarrow> ((val + unit) \<times> state) option" where
  "set_value_body n E s v st =
     (if kind (objs st s) = Computed
      then Some (throw_Error ''Computed signals are readonly'' st)
      else if \<not> identical v (o_value (objs st s)) then
        (if batchIteration st > 100 then Some (cycleDetected st)
         else
           (let st1 = upd_obj s (\<lambda>x. x\<lparr>o_value := v\<rparr>) st;
                st2 = upd_obj s (\<lambda>x. x\<lparr>o_version := o_version x + 1\<rparr>) st1;
                st3 = st2\<lparr>globalVersion := globalVersion st2 + 1\<rparr>;
                st4 = startBatch st3
            in case notify_targets n (o_targets (objs st4 s)) st4 of
                 None \<Rightarrow> None
               | Some st5 \<Rightarrow> e_endBatch E st5))
      else Some (Inr (), st))"

definition endBatch_body :: "callees \<Rightarrow> state \<Rightarrow> ((val + unit) \<times> state) option" where
  "endBatch_body E st =
     (if batchDepth st > 1 then Some (Inr (), st\<lparr>batchDepth := batchDepth st - 1\<rparr>)
      else
        (case e_drain E None st of
           None \<Rightarrow> None
         | Some (err, st1) \<Rightarrow>
            (let st2 = st1\<lparr>batchIteration := 0\<rparr>;
                 st3 = st2\<lparr>batchDepth := batchDepth st2 - 1\<rparr>
             in Some (case err of Some e \<Rightarrow> Inl e | None \<Rightarrow> Inr (), st3))))"

definition drain_body :: "callees \<Rightarrow> val option \<Rightarrow> state \<Rightarrow> (val option \<times> state) option" where
  "drain_body E err st =
     (case batchedEffect st of
        None \<Rightarrow> Some (err, st)
      | Some e \<Rightarrow>
         (let st1 = st\<lparr>batchedEffect := None\<rparr>;
              st2 = st1\<lparr>batchIteration := batchIteration st1 + 1\<rparr>
          in case e_run_effects E (Some e) err st2 of
               None \<Rightarrow> None
             | Some (err1, st3) \<Rightarrow> e_drain E err1 st3))"

definition run_effects_body ::
  "callees \<Rightarrow> ref option \<Rightarrow> val option \<Rightarrow> state \<Rightarrow> (val option \<times> state) option" where
  "run_effects_body E effect err st =
     (case effect of
        None \<Rightarrow> Some (err, st)
      | Some e \<Rightarrow>
         (let next = o_nextEffect (objs st e);
              st1 = upd_obj e (\<lambda>x. x\<lparr>o_nextEffect := None\<rparr>) st;
              st2 = clear_flags e NOTIFIED st1
          in case e_effect_callback E e st2 of
               None \<Rightarrow> None
             | Some (r, st3) \<Rightarrow> e_run_effects E next (first_error err r) st3))"

definition effect_callback_body ::
  "nat \<Rightarrow> callees \<Rightarrow> ref \<Rightarrow> state \<Rightarrow> ((val + unit) \<times> state) option" where
  "effect_callback_body n E e st =
     (if has (o_flags (objs st e)) RUNNING then Some (cycleDetected st)
      else
        (let st1 = set_flags e RUNNING st;
             st2 = startBatch st1;
             prevContext = evalContext st2;
             st3 = st2\<lparr>evalContext := Some e\<rparr>
         in case prepareSources n e st3 of
              None \<Rightarrow> None
            | Some st4 \<Rightarrow>
               (case e_exec E (o_compute (objs st4 e)) st4 of
                  None \<Rightarrow> None
                | Some (r, st5) \<Rightarrow>
                   (case e_endEffect E e prevContext st5 of
                      None \<Rightarrow> None
                    | Some (r1, st6) \<Rightarrow>
                       Some (case r1 of
                               Inl x \<Rightarrow> Inl x
                             | Inr _ \<Rightarrow> (case r of Inl x \<Rightarrow> Inl x | Inr _ \<Rightarrow> Inr ()),
                             st6)))))"

text \<open>
  \<^verbatim>\<open>endEffect\<close>: \<^verbatim>\<open>RUNNING\<close> is released after \<^verbatim>\<open>endBatch\<close>, and only when
  \<^verbatim>\<open>endBatch\<close> returned.
\<close>

definition endEffect_body ::
  "nat \<Rightarrow> callees \<Rightarrow> ref \<Rightarrow> ref option \<Rightarrow> state \<Rightarrow> ((val + unit) \<times> state) option" where
  "endEffect_body n E e prevContext st =
     (case cleanupSources n e st of
        None \<Rightarrow> None
      | Some st1 \<Rightarrow>
         (case e_endBatch E (st1\<lparr>evalContext := prevContext\<rparr>) of
            None \<Rightarrow> None
          | Some (r, st2) \<Rightarrow>
             (case r of
                Inl x \<Rightarrow> Some (Inl x, st2)
              | Inr _ \<Rightarrow> Some (Inr (), clear_flags e RUNNING st2))))"

primrec engine :: "nat \<Rightarrow> callees" where
  "engine 0 =
     \<lparr>e_exec = (\<lambda>p st. None), e_get_value = (\<lambda>s st. None), e_getValue = (\<lambda>s st. None),
      e_peek = (\<lambda>s st. None), e_scan = (\<lambda>p st. None), e_set_value = (\<lambda>s v st. None),
      e_endBatch = (\<lambda>st. None), e_drain = (\<lambda>err st. None),
      e_run_effects = (\<lambda>p err st. None), e_effect_callback = (\<lambda>e st. None),
      e_endEffect = (\<lambda>e c st. None)\<rparr>"
| "engine (Suc n) =
     \<lparr>e_exec = exec_body (engine n), e_get_value = get_value_body (engine n),
      e_getValue = getValue_body n (engine n), e_peek = peek_body n (engine n),
      e_scan = scan_body (engine n), e_set_value = set_value_body n (engine n),
      e_endBatch = endBatch_body (engine n), e_drain = drain_body (engine n),
      e_run_effects = run_effects_body (engine n),
      e_effect_callback = effect_callback_body n (engine n),
      e_endEffect = endEffect_body n (engine n)\<rparr>"

abbreviation exec :: "nat \<Rightarrow> prog \<Rightarrow> state \<Rightarrow> ((val + val) \<times> state) option" where
  "exec n \<equiv> e_exec (engine n)"
abbreviation get_value :: "nat \<Rightarrow> ref \<Rightarrow> state \<Rightarrow> ((val + val) \<times> state) option" where
  "get_value n \<equiv> e_get_value (engine n)"
abbreviation getValue :: "nat \<Rightarrow> ref \<Rightarrow> state \<Rightarrow> ((val + val) \<times> state) option" where
  "getValue n \<equiv> e_getValue (engine n)"
abbreviation peek :: "nat \<Rightarrow> ref \<Rightarrow> state \<Rightarrow> ((val + val) \<times> state) option" where
  "peek n \<equiv> e_peek (engine n)"
abbreviation scan :: "nat \<Rightarrow> ref option \<Rightarrow> state \<Rightarrow> (ref option \<times> state) option" where
  "scan n \<equiv> e_scan (engine n)"
abbreviation set_value :: "nat \<Rightarrow> ref \<Rightarrow> val \<Rightarrow> state \<Rightarrow> ((val + unit) \<times> state) option" where
  "set_value n \<equiv> e_set_value (engine n)"
abbreviation endBatch :: "nat \<Rightarrow> state \<Rightarrow> ((val + unit) \<times> state) option" where
  "endBatch n \<equiv> e_endBatch (engine n)"
abbreviation drain :: "nat \<Rightarrow> val option \<Rightarrow> state \<Rightarrow> (val option \<times> state) option" where
  "drain n \<equiv> e_drain (engine n)"
abbreviation run_effects ::
  "nat \<Rightarrow> ref option \<Rightarrow> val option \<Rightarrow> state \<Rightarrow> (val option \<times> state) option" where
  "run_effects n \<equiv> e_run_effects (engine n)"
abbreviation effect_callback :: "nat \<Rightarrow> ref \<Rightarrow> state \<Rightarrow> ((val + unit) \<times> state) option" where
  "effect_callback n \<equiv> e_effect_callback (engine n)"
abbreviation endEffect ::
  "nat \<Rightarrow> ref \<Rightarrow> ref option \<Rightarrow> state \<Rightarrow> ((val + unit) \<times> state) option" where
  "endEffect n \<equiv> e_endEffect (engine n)"

section \<open>The public operations\<close>

text \<open>The constructors of \<^verbatim>\<open>Signal\<close>, \<^verbatim>\<open>Computed\<close> and \<^verbatim>\<open>Effect\<close>.\<close>

definition new_obj :: "obj \<Rightarrow> state \<Rightarrow> ref \<times> state" where
  "new_obj x st = (nextObj st, st\<lparr>objs := (objs st)(nextObj st := x), nextObj := Suc (nextObj st)\<rparr>)"

definition new_Signal :: "val \<Rightarrow> state \<Rightarrow> ref \<times> state" where
  "new_Signal v st =
     new_obj \<lparr>kind = Signal, o_value = v, o_version = 0, o_node = None, o_targets = None,
              o_compute = Return Undefined, o_sources = None, o_globalVersion = 0,
              o_flags = 0, o_nextEffect = None\<rparr> st"

definition new_Computed :: "prog \<Rightarrow> state \<Rightarrow> ref \<times> state" where
  "new_Computed compute st =
     new_obj \<lparr>kind = Computed, o_value = Undefined, o_version = 0, o_node = None,
              o_targets = None, o_compute = compute, o_sources = None,
              o_globalVersion = globalVersion st - 1, o_flags = STALE,
              o_nextEffect = None\<rparr> st"

definition new_Effect :: "prog \<Rightarrow> state \<Rightarrow> ref \<times> state" where
  "new_Effect callback st =
     new_obj \<lparr>kind = Effect, o_value = Undefined, o_version = 0, o_node = None,
              o_targets = None, o_compute = callback, o_sources = None,
              o_globalVersion = 0, o_flags = SHOULD_SUBSCRIBE, o_nextEffect = None\<rparr> st"

text \<open>
  \<^verbatim>\<open>effect(callback)\<close>: make the effect and run it once. The outcome comes with the
  reference of the effect, which stands for the disposer that the source returns.
\<close>

definition effect :: "nat \<Rightarrow> prog \<Rightarrow> state \<Rightarrow> ((val + ref) \<times> state) option" where
  "effect n callback st =
     (let (e, st1) = new_Effect callback st in
      case effect_callback n e st1 of
        None \<Rightarrow> None
      | Some (r, st2) \<Rightarrow> Some (case r of Inl x \<Rightarrow> Inl x | Inr _ \<Rightarrow> Inr e, st2))"

text \<open>\<^verbatim>\<open>Effect.prototype._dispose\<close>.\<close>

definition dispose :: "nat \<Rightarrow> ref \<Rightarrow> state \<Rightarrow> state option" where
  "dispose n e st =
     (case unsubscribe_sources n (o_sources (objs st e)) st of
        None \<Rightarrow> None
      | Some st1 \<Rightarrow> Some (upd_obj e (\<lambda>x. x\<lparr>o_sources := None\<rparr>) st1))"

text \<open>\<^verbatim>\<open>batch(callback)\<close>, the callback being user code.\<close>

definition batch :: "nat \<Rightarrow> prog \<Rightarrow> state \<Rightarrow> ((val + val) \<times> state) option" where
  "batch n callback st =
     (if batchDepth st > 0 then exec n callback st
      else
        (case exec n callback (startBatch st) of
           None \<Rightarrow> None
         | Some (r, st1) \<Rightarrow>
            (case endBatch n st1 of
               None \<Rightarrow> None
             | Some (r1, st2) \<Rightarrow> Some (case r1 of Inl x \<Rightarrow> Inl x | Inr _ \<Rightarrow> r, st2))))"

text \<open>The store before anything was made.\<close>

definition init :: state where
  "init =
     \<lparr>objs = (\<lambda>_. \<lparr>kind = Signal, o_value = Undefined, o_version = 0, o_node = None,
                   o_targets = None, o_compute = Return Undefined, o_sources = None,
                   o_globalVersion = 0, o_flags = 0, o_nextEffect = None\<rparr>),
      nodes = (\<lambda>_. \<lparr>signal = 0, prevSignal = None, nextSignal = None, target = 0,
                    prevTarget = None, nextTarget = None, version = 0, used = False,
                    rollbackNode = None\<rparr>),
      nextObj = 0, nextNode = 0, evalContext = None, batchedEffect = None,
      batchDepth = 0, batchIteration = 0, globalVersion = 0, nextError = 0\<rparr>"

section \<open>Observing the store\<close>

text \<open>
  A linked list of the store, read the way the loops of the source read it: from the head,
  following one pointer field, for at most \<open>n\<close> steps.
\<close>

fun walk :: "nat \<Rightarrow> (ref \<Rightarrow> ref option) \<Rightarrow> ref option \<Rightarrow> ref list" where
  "walk 0 nxt p = []"
| "walk (Suc n) nxt None = []"
| "walk (Suc n) nxt (Some p) = p # walk n nxt (nxt p)"

text \<open>The nodes of a target's sources list, and the signals they stand for.\<close>

definition source_nodes :: "nat \<Rightarrow> state \<Rightarrow> ref \<Rightarrow> ref list" where
  "source_nodes n st t = walk n (\<lambda>p. nextSignal (nodes st p)) (o_sources (objs st t))"

definition sources_of :: "nat \<Rightarrow> state \<Rightarrow> ref \<Rightarrow> ref list" where
  "sources_of n st t = map (\<lambda>p. signal (nodes st p)) (source_nodes n st t)"

text \<open>The nodes of a signal's targets list.\<close>

definition target_nodes :: "nat \<Rightarrow> state \<Rightarrow> ref \<Rightarrow> ref list" where
  "target_nodes n st s = walk n (\<lambda>p. nextTarget (nodes st p)) (o_targets (objs st s))"

text \<open>The store that a call left, whatever its outcome.\<close>

definition store_after :: "('a \<times> state) option \<Rightarrow> state option" where
  "store_after res = map_option snd res"

definition outcome :: "('a \<times> state) option \<Rightarrow> 'a option" where
  "outcome res = map_option fst res"

text \<open>
  Running one call after another on the store that the first one left, as the statements
  of a script do; the script stops when a call has not returned.
\<close>

definition and_then :: "state option \<Rightarrow> (state \<Rightarrow> ('a \<times> state) option) \<Rightarrow> ('a \<times> state) option" where
  "and_then st f = (case st of None \<Rightarrow> None | Some x \<Rightarrow> f x)"

definition sources_after :: "nat \<Rightarrow> ref \<Rightarrow> ('a \<times> state) option \<Rightarrow> ref list option" where
  "sources_after n t res = map_option (\<lambda>st. sources_of n st t) (store_after res)"

text \<open>What a computed has cached: its version, its value, and whether the value is an error.\<close>

definition cached :: "ref \<Rightarrow> state \<Rightarrow> int \<times> val \<times> bool" where
  "cached c st = (o_version (objs st c), o_value (objs st c), has (o_flags (objs st c)) HAS_ERROR)"


section \<open>Scripts\<close>

text \<open>
  Two signals \<^verbatim>\<open>a = signal(1)\<close>, \<^verbatim>\<open>b = signal(2)\<close> (references 0 and 1) and
  \<^verbatim>\<open>c = computed(() => { a.value; return b.value })\<close> (reference 2).
\<close>

definition two_reads :: prog where
  "two_reads = Read 0 (uncaught (\<lambda>x. Read 1 (uncaught (\<lambda>y. Return y))))"

definition two_reads_start :: state where
  "two_reads_start =
     snd (new_Computed two_reads (snd (new_Signal (Num 2) (snd (new_Signal (Num 1) init)))))"

text \<open>
  Signals \<^verbatim>\<open>t = signal(0)\<close>, \<^verbatim>\<open>a = signal(1)\<close>, \<^verbatim>\<open>b = signal(2)\<close> (references 0,
  1, 2) and \<^verbatim>\<open>c = computed(() => t.peek() === 0 ? a.value : (b.value, a.value))\<close>
  (reference 3). The script reads \<^verbatim>\<open>c\<close>, sets \<^verbatim>\<open>t.value = 1\<close> and
  \<^verbatim>\<open>a.value = 5\<close>, and reads \<^verbatim>\<open>c\<close> again: the second evaluation reads the new
  dependency \<^verbatim>\<open>b\<close> before the old one \<^verbatim>\<open>a\<close>.
\<close>

definition switch_reads :: prog where
  "switch_reads =
     Peek 0 (uncaught (\<lambda>t. if t = Num 0 then Read 1 (uncaught Return)
                            else Read 2 (uncaught (\<lambda>y. Read 1 (uncaught Return)))))"

definition switch_start :: state where
  "switch_start =
     snd (new_Computed switch_reads
       (snd (new_Signal (Num 2) (snd (new_Signal (Num 1) (snd (new_Signal (Num 0) init)))))))"

definition switch_run :: "((val + val) \<times> state) option" where
  "switch_run =
     and_then (store_after
       (and_then (store_after
         (and_then (store_after (peek 10 3 switch_start)) (set_value 10 0 (Num 1))))
         (set_value 10 1 (Num 5))))
       (peek 10 3)"

text \<open>The script goes on with \<^verbatim>\<open>a.value = 6\<close>.\<close>

definition switch_run_on :: "((val + unit) \<times> state) option" where
  "switch_run_on = and_then (store_after switch_run) (set_value 10 1 (Num 6))"


definition throwing :: prog where
  "throwing = Read 0 (uncaught (\<lambda>x. Throw (Num 7)))"

definition throwing_start :: state where
  "throwing_start = snd (new_Computed throwing (snd (new_Signal (Num 1) init)))"






section \<open>What a running computed keeps\<close>

text \<open>
  The part of an object that only its own recomputation may change: its class, its value
  and version, the flags \<^verbatim>\<open>RUNNING\<close> and \<^verbatim>\<open>HAS_ERROR\<close>, and its formula. An
  object is locked when it is a computed that is running.
\<close>

definition view :: "ref \<Rightarrow> state \<Rightarrow> kind \<times> val \<times> int \<times> bool \<times> bool \<times> prog" where
  "view c st = (kind (objs st c), o_value (objs st c), o_version (objs st c),
                has (o_flags (objs st c)) RUNNING, has (o_flags (objs st c)) HAS_ERROR,
                o_compute (objs st c))"

definition locked :: "ref \<Rightarrow> state \<Rightarrow> bool" where
  "locked c st \<longleftrightarrow> (case view c st of (k, v, n, run, err, f) \<Rightarrow> k = Computed \<and> run)"

text \<open>A call keeps the locked object \<open>c\<close>; so do all the functions of \<open>E\<close>.\<close>

definition pres :: "ref \<Rightarrow> (state \<Rightarrow> ('a \<times> state) option) \<Rightarrow> bool" where
  "pres c f \<longleftrightarrow> (\<forall>st r st'. locked c st \<longrightarrow> f st = Some (r, st') \<longrightarrow> view c st' = view c st)"

definition keeps :: "ref \<Rightarrow> callees \<Rightarrow> bool" where
  "keeps c E \<longleftrightarrow>
     (\<forall>p. pres c (e_exec E p)) \<and> (\<forall>s. pres c (e_get_value E s)) \<and>
     (\<forall>s. pres c (e_getValue E s)) \<and> (\<forall>s. pres c (e_peek E s)) \<and>
     (\<forall>q. pres c (e_scan E q)) \<and> (\<forall>s v. pres c (e_set_value E s v)) \<and>
     pres c (e_endBatch E) \<and> (\<forall>err. pres c (e_drain E err)) \<and>
     (\<forall>q err. pres c (e_run_effects E q err)) \<and> (\<forall>e. pres c (e_effect_callback E e)) \<and>
     (\<forall>e pc. e \<noteq> c \<longrightarrow> pres c (e_endEffect E e pc))"

text \<open>
  What a computed has cached, with its class and formula: the part of \<open>view\<close> that
  \<^verbatim>\<open>RUNNING\<close> is not in.
\<close>

definition cache_view :: "ref \<Rightarrow> state \<Rightarrow> kind \<times> val \<times> int \<times> bool \<times> prog" where
  "cache_view c st = (kind (objs st c), o_value (objs st c), o_version (objs st c),
                      has (o_flags (objs st c)) HAS_ERROR, o_compute (objs st c))"

text \<open>
  The module-level variables that the functions on the subscription lists and on the
  sources lists leave alone.
\<close>

definition globals :: "state \<Rightarrow> ref option \<times> int \<times> int \<times> int \<times> ref \<times> nat" where
  "globals st = (evalContext st, batchDepth st, batchIteration st, globalVersion st, nextObj st,
                 nextError st)"


text \<open>
  The fields of a node other than its links in a targets list, and the fields of an
  object that say where its nodes are.
\<close>

definition edge_view ::
  "ref \<Rightarrow> state \<Rightarrow> ref \<times> ref option \<times> ref option \<times> ref \<times> int \<times> bool \<times> ref option" where
  "edge_view p st = (signal (nodes st p), prevSignal (nodes st p), nextSignal (nodes st p),
                     target (nodes st p), version (nodes st p), used (nodes st p),
                     rollbackNode (nodes st p))"

definition src_view :: "ref \<Rightarrow> state \<Rightarrow> ref option \<times> ref option" where
  "src_view r st = (o_node (objs st r), o_sources (objs st r))"

text \<open>
  The heap of nodes.
\<close>

definition edges :: "state \<Rightarrow> ref \<Rightarrow> node" where
  "edges st = nodes st"

text \<open>
  A store with \<^verbatim>\<open>s = signal(0)\<close> (reference 0) in which the drain has counted past
  100 iterations.
\<close>

definition guard_state :: state where
  "guard_state = (snd (new_Signal (Num 0) init))\<lparr>batchIteration := 101\<rparr>"

text \<open>
  \<^verbatim>\<open>a = signal(1)\<close>, \<^verbatim>\<open>d = computed(() => { a.value; throw 7 })\<close> and
  \<^verbatim>\<open>c = computed(() => d.value)\<close> (references 0, 1, 2), in the evaluation of
  \<^verbatim>\<open>c\<close>.
\<close>

definition reading_state :: state where
  "reading_state = (snd (new_Computed (Read 1 (uncaught Return)) throwing_start))\<lparr>evalContext := Some 2\<rparr>"

text \<open>
  The value and the version of a signal.
\<close>

definition signal_state :: "ref \<Rightarrow> state \<Rightarrow> val \<times> int" where
  "signal_state s st = (o_value (objs st s), o_version (objs st s))"

text \<open>
  An object that has the flag \<^verbatim>\<open>NOTIFIED\<close>.
\<close>

definition notified :: "ref \<Rightarrow> state \<Rightarrow> bool" where
  "notified x st \<longleftrightarrow> has (o_flags (objs st x)) NOTIFIED"


text \<open>
  What no function of the engine changes: the class and the formula of an object.
\<close>

definition sview :: "ref \<Rightarrow> state \<Rightarrow> kind \<times> prog" where
  "sview c st = (kind (objs st c), o_compute (objs st c))"









text \<open>
  The store of \<^verbatim>\<open>Computed.prototype.peek\<close> when it is past both fast paths (lines 351
  to 366): \<^verbatim>\<open>NOTIFIED\<close> and \<^verbatim>\<open>STALE\<close> cleared, \<^verbatim>\<open>RUNNING\<close> set, and the
  global version recorded. \<open>fast_path\<close> is the condition under which it takes one of them.
\<close>

definition entered :: "ref \<Rightarrow> state \<Rightarrow> state" where
  "entered c st =
     (let st1 = clear_flags c NOTIFIED st;
          st2 = set_flags c RUNNING st1;
          st3 = clear_flags c STALE st2
      in upd_obj c (\<lambda>x. x\<lparr>o_globalVersion := globalVersion st3\<rparr>) st3)"

definition fast_path :: "ref \<Rightarrow> state \<Rightarrow> bool" where
  "fast_path c st \<longleftrightarrow>
     (\<not> has (o_flags (objs st c)) STALE \<and> o_targets (objs st c) \<noteq> None) \<or>
     o_globalVersion (objs st c) = globalVersion st"



text \<open>The recomputation with fuel \<open>n\<close>, as \<open>peek (Suc n)\<close> runs it.\<close>

abbreviation recompute :: "nat \<Rightarrow> ref \<Rightarrow> state \<Rightarrow> ((val + val) \<times> state) option" where
  "recompute n \<equiv> recompute_body n (engine n)"




text \<open>
  \<^verbatim>\<open>a = signal(-1)\<close> and
  \<^verbatim>\<open>d = computed(() => { if (a.value < 0) throw 7; return a.value })\<close> (references 0
  and 1).
\<close>

definition recovering :: prog where
  "recovering =
     Read 0 (uncaught (\<lambda>x. case x of Num i \<Rightarrow> if i < 0 then Throw (Num 7) else Return x
                                  | _ \<Rightarrow> Return x))"


text \<open>\<^verbatim>\<open>s = signal(NaN)\<close>, and the same once the drain has counted past 100 iterations.\<close>

definition nan_state :: state where
  "nan_state = snd (new_Signal NaN init)"

definition nan_guard_state :: state where
  "nan_guard_state = nan_state\<lparr>batchIteration := 101\<rparr>"

text \<open>
  \<^verbatim>\<open>a = signal(1)\<close>, \<^verbatim>\<open>d\<close> as above and
  \<^verbatim>\<open>c = computed(() => { d.value; a.value = -1; return d.value })\<close> (references 0, 1,
  2): \<^verbatim>\<open>c\<close> reads \<^verbatim>\<open>d\<close> twice in one evaluation, and \<^verbatim>\<open>d\<close> is recomputed
  in between.
\<close>

definition rereading :: prog where
  "rereading =
     Read 1 (uncaught (\<lambda>x. Write 0 (Num (- 1)) (uncaught (\<lambda>y. Read 1 (uncaught Return)))))"

definition rereading_start :: state where
  "rereading_start =
     snd (new_Computed rereading (snd (new_Computed recovering (snd (new_Signal (Num 1) init)))))"

text \<open>A node as an edge: its source, its target, and the version it has recorded.\<close>

definition edge :: "ref \<Rightarrow> state \<Rightarrow> ref \<times> ref \<times> int" where
  "edge p st = (signal (nodes st p), target (nodes st p), version (nodes st p))"

text \<open>
  The third case of \<^verbatim>\<open>getValue\<close> (line 151): the current node of the signal belongs
  to the evaluation context and is already marked used, so the signal has been read before
  in this evaluation.
\<close>

definition repeated_read :: "ref \<Rightarrow> ref \<Rightarrow> state \<Rightarrow> bool" where
  "repeated_read ctx s st \<longleftrightarrow>
     (case o_node (objs st s) of None \<Rightarrow> False
      | Some p \<Rightarrow> target (nodes st p) = ctx \<and> used (nodes st p))"

text \<open>The batch depth, and the calls that leave it as it is (when it is at least 1) or lower it by one.\<close>

definition depth :: "state \<Rightarrow> int" where
  "depth st = batchDepth st"




text \<open>
  What the drain reads of an object: its class, its link in the queue of batched effects and
  the flag \<^verbatim>\<open>NOTIFIED\<close>. An object is pending when it is a notified effect.
\<close>

definition pview :: "ref \<Rightarrow> state \<Rightarrow> kind \<times> ref option \<times> bool" where
  "pview x st = (kind (objs st x), o_nextEffect (objs st x), has (o_flags (objs st x)) NOTIFIED)"






text \<open>
  The drain as the specification words it: every effect of the list is run in turn, its
  flag cleared and its link reset, whatever the ones before it threw; the first error is
  captured and kept.
\<close>

definition capture :: "val option \<Rightarrow> val + unit \<Rightarrow> val option" where
  "capture err r =
     (case err of Some x \<Rightarrow> Some x | None \<Rightarrow> (case r of Inl e \<Rightarrow> Some e | Inr _ \<Rightarrow> None))"






text \<open>
  The script of \<open>switch_run\<close> goes on with \<^verbatim>\<open>t.value = 2\<close>: a write to a signal
  that \<^verbatim>\<open>c\<close> does not depend on (it reads \<^verbatim>\<open>t\<close> with \<^verbatim>\<open>peek\<close>).
\<close>

definition switch_quiet :: "((val + unit) \<times> state) option" where
  "switch_quiet = and_then (store_after switch_run) (set_value 10 0 (Num 2))"

text \<open>
  The nodes of the sources list of \<open>c\<close> whose recorded version is not the version of
  their source: the sources that have changed since they were read.
\<close>

definition changed_edges :: "nat \<Rightarrow> ref \<Rightarrow> state \<Rightarrow> ref list" where
  "changed_edges n c st =
     filter (\<lambda>p. o_version (objs st (signal (nodes st p))) \<noteq> version (nodes st p))
       (source_nodes n st c)"





section \<open>Basic facts\<close>

declare engine.simps [simp del]

lemma engine_Suc_proj:
  "exec (Suc n) = exec_body (engine n)"
  "get_value (Suc n) = get_value_body (engine n)"
  "getValue (Suc n) = getValue_body n (engine n)"
  "peek (Suc n) = peek_body n (engine n)"
  "scan (Suc n) = scan_body (engine n)"
  "set_value (Suc n) = set_value_body n (engine n)"
  "endBatch (Suc n) = endBatch_body (engine n)"
  "drain (Suc n) = drain_body (engine n)"
  "run_effects (Suc n) = run_effects_body (engine n)"
  "effect_callback (Suc n) = effect_callback_body n (engine n)"
  "endEffect (Suc n) = endEffect_body n (engine n)"
  by (simp_all add: engine.simps)

lemma engine_0_proj:
  "exec 0 p st = None"
  "get_value 0 s st = None"
  "getValue 0 s st = None"
  "peek 0 s st = None"
  "scan 0 q st = None"
  "set_value 0 s v st = None"
  "endBatch 0 st = None"
  "drain 0 err st = None"
  "run_effects 0 q err st = None"
  "effect_callback 0 e st = None"
  "endEffect 0 e c st = None"
  by (simp_all add: engine.simps)

lemmas engine_numeral_proj =
  engine_Suc_proj [of "pred_numeral k" for k, folded numeral_eq_Suc]

lemmas fuel_numeral =
  subscribe.simps(2) [of "pred_numeral k" for k, folded numeral_eq_Suc]
  subscribe_sources.simps(2,3) [of "pred_numeral k" for k, folded numeral_eq_Suc]
  unsubscribe.simps(2) [of "pred_numeral k" for k, folded numeral_eq_Suc]
  unsubscribe_sources.simps(2,3) [of "pred_numeral k" for k, folded numeral_eq_Suc]
  notify.simps(2) [of "pred_numeral k" for k, folded numeral_eq_Suc]
  notify_targets.simps(2,3) [of "pred_numeral k" for k, folded numeral_eq_Suc]
  prepareSources_loop.simps(2,3) [of "pred_numeral k" for k, folded numeral_eq_Suc]
  cleanupSources_loop.simps(2,3) [of "pred_numeral k" for k, folded numeral_eq_Suc]
  walk.simps(2,3) [of "pred_numeral k" for k, folded numeral_eq_Suc]

lemma fun_upd_sort: "(a::nat) < b \<Longrightarrow> f(b := x, a := y) = f(a := y, b := x)"
  by (rule fun_upd_twist) simp

lemma flag_values:
  "RUNNING = 1" "STALE = 2" "NOTIFIED = 4" "HAS_ERROR = 8" "SHOULD_SUBSCRIBE = 16"
  by (simp_all add: RUNNING_def STALE_def NOTIFIED_def HAS_ERROR_def SHOULD_SUBSCRIBE_def)

text \<open>Everything that a run on a concrete store unfolds.\<close>

lemmas body_defs =
  exec_body_def get_value_body_def getValue_body_def peek_body_def recompute_body_def scan_body_def
  set_value_body_def endBatch_body_def drain_body_def run_effects_body_def
  effect_callback_body_def endEffect_body_def

lemmas store_defs =
  track_def prepareSources_def cleanupSources_def returnComputed_def store_result_def
  first_error_def startBatch_def Signal_subscribe_def Signal_unsubscribe_def upd_obj_def
  upd_node_def upd_node_opt_def set_flags_def clear_flags_def

lemmas run_simps =
  engine_Suc_proj engine_0_proj engine_numeral_proj fuel_numeral fun_upd_sort flag_values
  body_defs store_defs has_def cycleDetected_def throw_Error_def identical_def uncaught_def
  new_obj_def new_Signal_def new_Computed_def new_Effect_def effect_def dispose_def
  batch_def init_def Let_def source_nodes_def sources_of_def target_nodes_def
  store_after_def outcome_def and_then_def

text \<open>The flag word, bit by bit.\<close>

lemma flag_powers:
  "RUNNING = 2 ^ 0" "STALE = 2 ^ 1" "NOTIFIED = 2 ^ 2" "HAS_ERROR = 2 ^ 3"
  "SHOULD_SUBSCRIBE = 2 ^ 4"
  by (simp_all add: RUNNING_def STALE_def NOTIFIED_def HAS_ERROR_def SHOULD_SUBSCRIBE_def)

lemma has_power: "has f (2 ^ k) = bit f k"
  by (simp add: has_def and_exp_eq_0_iff_not_bit)

lemmas has_bit =
  has_power [of _ 0, folded flag_powers] has_power [of _ 1, folded flag_powers]
  has_power [of _ 2, folded flag_powers] has_power [of _ 3, folded flag_powers]
  has_power [of _ 4, folded flag_powers]

lemma flag_bits:
  "bit (f OR g) k = (bit f k \<or> bit g k)"
  "bit (f AND g) k = (bit f k \<and> bit g k)"
  "bit (NOT f) k = (\<not> bit f k)" for f g :: int
  by (simp_all add: bit_or_iff bit_and_iff bit_not_iff)

lemma const_bits:
  "bit RUNNING k = (k = 0)" "bit STALE k = (k = 1)" "bit NOTIFIED k = (k = 2)"
  "bit HAS_ERROR k = (k = 3)" "bit SHOULD_SUBSCRIBE k = (k = 4)"
  unfolding flag_powers by (simp_all only: bit_exp_iff possible_bit_int simp_thms)

lemmas flag_simps = has_bit flag_bits const_bits


section \<open>The order of a sources list\<close>

text \<open>
  Claim C1, as the specification states it: after a completed evaluation the sources list
  is in most-recently-observed-first order, the first dependency read being at the tail.
  It fails: after \<^verbatim>\<open>c\<close> has read \<^verbatim>\<open>a\<close> and then \<^verbatim>\<open>b\<close>, the list of \<^verbatim>\<open>c\<close>
  is \<^verbatim>\<open>a\<close>, \<^verbatim>\<open>b\<close>, with the first dependency read at the head.
\<close>

theorem sources_most_recent_first_counterexample:
  "outcome (peek 10 2 two_reads_start) = Some (Inr (Num 2)) \<and>
   sources_after 5 2 (peek 10 2 two_reads_start) = Some [0, 1]"
  by (simp add: two_reads_start_def two_reads_def sources_after_def run_simps)

text \<open>
  Claim C2: after a completed evaluation the sources list has no duplicates and is in
  first-read-first order. At the script above it fails: the second evaluation of \<^verbatim>\<open>c\<close>
  read \<^verbatim>\<open>b\<close> first, and leaves a list that starts with \<^verbatim>\<open>a\<close> and runs in a circle
  through the two nodes.
\<close>

theorem sources_list_circular:
  "outcome switch_run = Some (Inr (Num 5)) \<and>
   sources_after 5 3 switch_run = Some [1, 2, 1, 2, 1]"
  by (simp add: switch_run_def switch_start_def switch_reads_def sources_after_def run_simps)

section \<open>The version of a computed\<close>


section \<open>A running computed is left alone\<close>

lemma locked_iff: "locked c st \<longleftrightarrow> kind (objs st c) = Computed \<and> has (o_flags (objs st c)) RUNNING"
  by (simp add: locked_def view_def)

lemma locked_view: "view c st' = view c st \<Longrightarrow> locked c st' = locked c st"
  by (simp add: locked_def)

lemma view_upd_node [simp]: "view c (upd_node p f st) = view c st"
  "view c (upd_node_opt q f st) = view c st"
  by (simp_all add: view_def upd_node_def upd_node_opt_def split: option.splits)

lemma view_fields [simp]:
  "view c (st\<lparr>nodes := ns\<rparr>) = view c st"
  "view c (st\<lparr>nextNode := nn\<rparr>) = view c st"
  "view c (st\<lparr>evalContext := ec\<rparr>) = view c st"
  "view c (st\<lparr>batchedEffect := be\<rparr>) = view c st"
  "view c (st\<lparr>batchDepth := bd\<rparr>) = view c st"
  "view c (st\<lparr>batchIteration := bi\<rparr>) = view c st"
  "view c (st\<lparr>globalVersion := gv\<rparr>) = view c st"
  "view c (st\<lparr>nextError := ne\<rparr>) = view c st"
  by (simp_all add: view_def)

lemma view_upd_obj [simp]:
  "view c (upd_obj r (\<lambda>x. x\<lparr>o_node := a\<rparr>) st) = view c st"
  "view c (upd_obj r (\<lambda>x. x\<lparr>o_targets := a\<rparr>) st) = view c st"
  "view c (upd_obj r (\<lambda>x. x\<lparr>o_sources := a\<rparr>) st) = view c st"
  "view c (upd_obj r (\<lambda>x. x\<lparr>o_nextEffect := a\<rparr>) st) = view c st"
  "view c (upd_obj r (\<lambda>x. x\<lparr>o_globalVersion := g\<rparr>) st) = view c st"
  by (simp_all add: view_def upd_obj_def)

lemma view_flags [simp]:
  "view c (set_flags r STALE st) = view c st"
  "view c (set_flags r NOTIFIED st) = view c st"
  "view c (set_flags r (STALE OR NOTIFIED) st) = view c st"
  "view c (set_flags r (STALE OR SHOULD_SUBSCRIBE) st) = view c st"
  "view c (clear_flags r STALE st) = view c st"
  "view c (clear_flags r NOTIFIED st) = view c st"
  "view c (clear_flags r SHOULD_SUBSCRIBE st) = view c st"
  by (simp_all add: view_def upd_obj_def set_flags_def clear_flags_def flag_simps)

lemma view_Signal_subscribe [simp]: "view c (Signal_subscribe s p st) = view c st"
  by (simp add: Signal_subscribe_def Let_def)

lemma view_Signal_unsubscribe [simp]: "view c (Signal_unsubscribe s p st) = view c st"
  by (simp add: Signal_unsubscribe_def Let_def)

lemma view_subscribe:
  "subscribe n s p st = Some st' \<Longrightarrow> view c st' = view c st"
  "subscribe_sources n q st = Some st' \<Longrightarrow> view c st' = view c st"
  by (induction n s p st and n q st arbitrary: st' and st' rule: subscribe_subscribe_sources.induct)
     (auto simp: Let_def split: if_splits option.splits)

lemma view_unsubscribe:
  "unsubscribe n s p st = Some st' \<Longrightarrow> view c st' = view c st"
  "unsubscribe_sources n q st = Some st' \<Longrightarrow> view c st' = view c st"
  by (induction n s p st and n q st arbitrary: st' and st' rule: unsubscribe_unsubscribe_sources.induct)
     (auto simp: Let_def split: if_splits option.splits)

lemma view_notify:
  "notify n t st = Some st' \<Longrightarrow> view c st' = view c st"
  "notify_targets n q st = Some st' \<Longrightarrow> view c st' = view c st"
  by (induction n t st and n q st arbitrary: st' and st' rule: notify_notify_targets.induct)
     (auto simp: Let_def split: if_splits option.splits)

lemma view_prepareSources_loop:
  "prepareSources_loop n q st = Some st' \<Longrightarrow> view c st' = view c st"
  by (induction n q st arbitrary: st' rule: prepareSources_loop.induct)
     (auto simp: Let_def split: if_splits option.splits)

lemma view_prepareSources: "prepareSources n t st = Some st' \<Longrightarrow> view c st' = view c st"
  by (simp add: prepareSources_def view_prepareSources_loop)

lemma view_cleanupSources_loop:
  "cleanupSources_loop n q srcs st = Some (srcs', st') \<Longrightarrow> view c st' = view c st"
  by (induction n q srcs st arbitrary: srcs' st' rule: cleanupSources_loop.induct)
     (auto simp: Let_def split: if_splits option.splits dest: view_unsubscribe)

lemma view_cleanupSources: "cleanupSources n t st = Some st' \<Longrightarrow> view c st' = view c st"
  by (auto simp add: cleanupSources_def split: option.splits dest: view_cleanupSources_loop)

lemma view_track: "track n s st = Some (q, st') \<Longrightarrow> view c st' = view c st"
  by (auto simp: track_def Let_def split: if_splits option.splits dest: view_subscribe)



lemma presD: "pres c f \<Longrightarrow> locked c st \<Longrightarrow> f st = Some (r, st') \<Longrightarrow> view c st' = view c st"
  unfolding pres_def by blast

lemma presI: "(\<And>st r st'. locked c st \<Longrightarrow> f st = Some (r, st') \<Longrightarrow> view c st' = view c st) \<Longrightarrow> pres c f"
  unfolding pres_def by blast

lemma keepsD:
  assumes "keeps c E"
  shows "pres c (e_exec E p)" "pres c (e_get_value E s)" "pres c (e_getValue E s)"
    "pres c (e_peek E s)" "pres c (e_scan E q)" "pres c (e_set_value E s v)"
    "pres c (e_endBatch E)" "pres c (e_drain E err)" "pres c (e_run_effects E q err)"
    "pres c (e_effect_callback E e)" "e \<noteq> c \<Longrightarrow> pres c (e_endEffect E e pc)"
  using assms by (simp_all add: keeps_def)

lemma locked_step: "view c st' = view c st \<Longrightarrow> locked c st \<Longrightarrow> locked c st'"
  by (simp add: locked_def)


lemma pres_chain:
  "pres c f \<Longrightarrow> locked c st \<Longrightarrow> f st = Some (r, st') \<Longrightarrow> locked c st' \<and> view c st' = view c st"
  using presD[of c f st r st'] locked_step[of c st' st] by blast

lemma keeps_exec_body:
  assumes K: "keeps c E"
  shows "pres c (exec_body E p)"
proof (rule presI)
  fix st r st' assume L: "locked c st" and X: "exec_body E p st = Some (r, st')"
  show "view c st' = view c st"
  proof (cases p)
    case (Read s k)
    with X obtain r1 st1 where a: "e_get_value E s st = Some (r1, st1)"
      and b: "e_exec E (k r1) st1 = Some (r, st')"
      by (auto simp: exec_body_def split: option.splits)
    from pres_chain[OF keepsD(2)[OF K] L a] pres_chain[OF keepsD(1)[OF K] _ b]
    show ?thesis by simp
  next
    case (Peek s k)
    with X obtain r1 st1 where a: "e_peek E s st = Some (r1, st1)"
      and b: "e_exec E (k r1) st1 = Some (r, st')"
      by (auto simp: exec_body_def split: option.splits)
    from pres_chain[OF keepsD(4)[OF K] L a] pres_chain[OF keepsD(1)[OF K] _ b]
    show ?thesis by simp
  next
    case (Write s v k)
    with X obtain r1 st1 where a: "e_set_value E s v st = Some (r1, st1)"
      and b: "e_exec E (k (case r1 of Inl e \<Rightarrow> Inl e | Inr _ \<Rightarrow> Inr Undefined)) st1 = Some (r, st')"
      by (auto simp: exec_body_def split: option.splits)
    from pres_chain[OF keepsD(6)[OF K] L a] pres_chain[OF keepsD(1)[OF K] _ b]
    show ?thesis by simp
  qed (use X in \<open>auto simp: exec_body_def\<close>)
qed

lemma keeps_get_value_body:
  assumes K: "keeps c E"
  shows "pres c (get_value_body E s)"
proof (rule presI)
  fix st r st' assume L: "locked c st" and X: "get_value_body E s st = Some (r, st')"
  from X have "view c st' = view c st \<or> e_getValue E s st = Some (r, st')"
    by (auto simp: get_value_body_def cycleDetected_def throw_Error_def split: if_splits)
  then show "view c st' = view c st"
    using presD[OF keepsD(3)[OF K] L] by blast
qed

lemma keeps_getValue_body:
  assumes K: "keeps c E"
  shows "pres c (getValue_body n E s)"
proof (rule presI)
  fix st r st' assume L: "locked c st" and X: "getValue_body n E s st = Some (r, st')"
  from X obtain q st1 st2 where a: "track n s st = Some (q, st1)"
    and b: "e_peek E s st1 = Some (r, st2)"
    and c: "st' = upd_node_opt q (\<lambda>x. x\<lparr>version := o_version (objs st2 s)\<rparr>) st2"
    by (auto simp: getValue_body_def split: option.splits)
  have v1: "view c st1 = view c st" using view_track[OF a] .
  from pres_chain[OF keepsD(4)[OF K] locked_step[OF v1 L] b] v1 c
  show "view c st' = view c st" by simp
qed


lemma pres_imp:
  "pres c f \<Longrightarrow> f st = Some (r, st') \<Longrightarrow> locked c st \<longrightarrow> view c st' = view c st"
  unfolding pres_def by blast

lemma view_other:
  "r \<noteq> c \<Longrightarrow> view c (upd_obj r f st) = view c st"
  "r \<noteq> c \<Longrightarrow> view c (set_flags r g st) = view c st"
  "r \<noteq> c \<Longrightarrow> view c (clear_flags r g st) = view c st"
  by (simp_all add: view_def upd_obj_def set_flags_def clear_flags_def)

lemma keeps_peek_body:
  assumes K: "keeps c E"
  shows "pres c (peek_body n E s)"
proof (rule presI)
  fix st r st' assume L: "locked c st" and X: "peek_body n E s st = Some (r, st')"
  show "view c st' = view c st"
  proof (cases "s = c")
    case True
    with L have "kind (objs st s) = Computed" "has (o_flags (objs (clear_flags s NOTIFIED st) s)) RUNNING"
      by (simp_all add: locked_iff clear_flags_def upd_obj_def flag_simps)
    with X have "(r, st') = cycleDetected (clear_flags s NOTIFIED st)"
      by (simp add: peek_body_def Let_def)
    then show ?thesis by (simp add: cycleDetected_def throw_Error_def)
  next
    case False
    show ?thesis using X L False
      by (auto simp: peek_body_def recompute_body_def Let_def returnComputed_def store_result_def
            view_other locked_def cycleDetected_def throw_Error_def
          split: if_splits option.splits
          dest!: pres_imp[OF keepsD(5)[OF K]] pres_imp[OF keepsD(1)[OF K]]
                 view_prepareSources[where c=c] view_cleanupSources[where c=c])
  qed
qed

lemma keeps_scan_body:
  assumes K: "keeps c E"
  shows "pres c (scan_body E q)"
proof (rule presI)
  fix st r st' assume L: "locked c st" and X: "scan_body E q st = Some (r, st')"
  show "view c st' = view c st" using X L
    by (auto simp: scan_body_def locked_def split: if_splits option.splits
          dest!: pres_imp[OF keepsD(4)[OF K]] pres_imp[OF keepsD(5)[OF K]])
qed

lemma keeps_set_value_body:
  assumes K: "keeps c E"
  shows "pres c (set_value_body n E s v)"
proof (rule presI)
  fix st r st' assume L: "locked c st" and X: "set_value_body n E s v st = Some (r, st')"
  show "view c st' = view c st"
  proof (cases "s = c")
    case True
    with L X show ?thesis by (auto simp: locked_iff set_value_body_def throw_Error_def)
  next
    case False
    show ?thesis using X L False
      by (auto simp: set_value_body_def Let_def startBatch_def view_other locked_def
            cycleDetected_def throw_Error_def
          split: if_splits option.splits
          dest!: pres_imp[OF keepsD(7)[OF K]] view_notify(2)[where c=c])
  qed
qed

lemma keeps_endBatch_body:
  assumes K: "keeps c E"
  shows "pres c (endBatch_body E)"
proof (rule presI)
  fix st r st' assume L: "locked c st" and X: "endBatch_body E st = Some (r, st')"
  show "view c st' = view c st" using X L
    by (auto simp: endBatch_body_def Let_def locked_def split: if_splits option.splits
          dest!: pres_imp[OF keepsD(8)[OF K]])
qed

lemma keeps_drain_body:
  assumes K: "keeps c E"
  shows "pres c (drain_body E err)"
proof (rule presI)
  fix st r st' assume L: "locked c st" and X: "drain_body E err st = Some (r, st')"
  show "view c st' = view c st" using X L
    by (auto simp: drain_body_def Let_def locked_def split: if_splits option.splits
          dest!: pres_imp[OF keepsD(8)[OF K]] pres_imp[OF keepsD(9)[OF K]])
qed

lemma keeps_run_effects_body:
  assumes K: "keeps c E"
  shows "pres c (run_effects_body E q err)"
proof (rule presI)
  fix st r st' assume L: "locked c st" and X: "run_effects_body E q err st = Some (r, st')"
  show "view c st' = view c st" using X L
    by (auto simp: run_effects_body_def Let_def locked_def split: if_splits option.splits
          dest!: pres_imp[OF keepsD(9)[OF K]] pres_imp[OF keepsD(10)[OF K]])
qed

lemma keeps_effect_callback_body:
  assumes K: "keeps c E"
  shows "pres c (effect_callback_body n E e)"
proof (rule presI)
  fix st r st' assume L: "locked c st" and X: "effect_callback_body n E e st = Some (r, st')"
  show "view c st' = view c st"
  proof (cases "e = c")
    case True
    with L X show ?thesis
      by (auto simp: locked_iff effect_callback_body_def cycleDetected_def throw_Error_def)
  next
    case False
    show ?thesis using X L False
      by (auto simp: effect_callback_body_def Let_def startBatch_def view_other locked_def
            cycleDetected_def throw_Error_def
          split: if_splits option.splits
          dest!: pres_imp[OF keepsD(1)[OF K]] pres_imp[OF keepsD(11)[OF K False]]
                 view_prepareSources[where c=c])
  qed
qed

lemma keeps_endEffect_body:
  assumes K: "keeps c E"
  shows "e \<noteq> c \<Longrightarrow> pres c (endEffect_body n E e pc)"
proof (rule presI)
  fix st r st' assume L: "locked c st" and X: "endEffect_body n E e pc st = Some (r, st')" and N: "e \<noteq> c"
  show "view c st' = view c st" using X L N
      by (auto simp: endEffect_body_def Let_def view_other locked_def
          split: if_splits option.splits sum.splits
          dest!: pres_imp[OF keepsD(7)[OF K]] view_cleanupSources[where c=c])
qed


lemma keeps_engine: "keeps c (engine n)"
proof (induction n)
  case 0
  show ?case by (simp add: keeps_def pres_def engine.simps)
next
  case (Suc n)
  show ?case
    unfolding keeps_def engine_Suc_proj
    using keeps_exec_body[OF Suc] keeps_get_value_body[OF Suc] keeps_getValue_body[OF Suc]
      keeps_peek_body[OF Suc] keeps_scan_body[OF Suc] keeps_set_value_body[OF Suc]
      keeps_endBatch_body[OF Suc] keeps_drain_body[OF Suc] keeps_run_effects_body[OF Suc]
      keeps_effect_callback_body[OF Suc] keeps_endEffect_body[OF Suc]
    by blast
qed

text \<open>
  The functions of the engine, one by one.
\<close>

lemma keeps_peek: "locked c st \<Longrightarrow> peek n s st = Some (r, st') \<Longrightarrow> view c st' = view c st"
  using keepsD(4)[OF keeps_engine[of c n]] by (rule presD)




lemma cache_view_simps [simp]:
  "cache_view c (clear_flags r NOTIFIED st) = cache_view c st"
  "cache_view c (clear_flags r STALE st) = cache_view c st"
  "cache_view c (clear_flags r RUNNING st) = cache_view c st"
  "cache_view c (set_flags r RUNNING st) = cache_view c st"
  "cache_view c (upd_obj r (\<lambda>x. x\<lparr>o_globalVersion := g\<rparr>) st) = cache_view c st"
  "cache_view c (st\<lparr>evalContext := ec\<rparr>) = cache_view c st"
  "cache_view c (st\<lparr>nextError := ne\<rparr>) = cache_view c st"
  by (simp_all add: cache_view_def clear_flags_def set_flags_def upd_obj_def flag_simps)

lemma peek_unfold:
  assumes K: "kind (objs st c) = Computed"
  shows "peek_body n E c st =
    (let st1 = clear_flags c NOTIFIED st;
         st2 = set_flags c RUNNING st1;
         st3 = clear_flags c STALE st2;
         st4 = upd_obj c (\<lambda>x. x\<lparr>o_globalVersion := globalVersion st3\<rparr>) st3;
         sc = (if o_version (objs st4 c) > 0 then e_scan E (o_sources (objs st4 c)) st4
               else Some (o_sources (objs st4 c), st4))
     in if has (o_flags (objs st1 c)) RUNNING then Some (cycleDetected st1)
        else if \<not> has (o_flags (objs st2 c)) STALE \<and> o_targets (objs st2 c) \<noteq> None
        then Some (returnComputed c st2)
        else if o_globalVersion (objs st3 c) = globalVersion st3
        then Some (returnComputed c st3)
        else (case sc of None \<Rightarrow> None
              | Some (node, st5) \<Rightarrow>
                 if o_version (objs st4 c) > 0 \<and> node = None then Some (returnComputed c st5)
                 else recompute_body n E c st5))"
  unfolding peek_body_def Let_def using K by (simp only: simp_thms if_False)


lemma obj_upd:
  "objs (upd_obj r f st) x = (if x = r then f (objs st r) else objs st x)"
  "objs (set_flags r fl st) x = (if x = r then (objs st r)\<lparr>o_flags := o_flags (objs st r) OR fl\<rparr> else objs st x)"
  "objs (clear_flags r fl st) x = (if x = r then (objs st r)\<lparr>o_flags := o_flags (objs st r) AND NOT fl\<rparr> else objs st x)"
  by (simp_all add: upd_obj_def set_flags_def clear_flags_def)



lemma entered_simps:
  "kind (objs (entered c st) x) = kind (objs st x)"
  "o_value (objs (entered c st) x) = o_value (objs st x)"
  "o_version (objs (entered c st) x) = o_version (objs st x)"
  "o_sources (objs (entered c st) x) = o_sources (objs st x)"
  "o_targets (objs (entered c st) x) = o_targets (objs st x)"
  "o_compute (objs (entered c st) x) = o_compute (objs st x)"
  "o_node (objs (entered c st) x) = o_node (objs st x)"
  "has (o_flags (objs (entered c st) c)) RUNNING"
  "has (o_flags (objs (entered c st) x)) HAS_ERROR = has (o_flags (objs st x)) HAS_ERROR"
  "nodes (entered c st) = nodes st"
  "evalContext (entered c st) = evalContext st"
  "globalVersion (entered c st) = globalVersion st"
  "cache_view x (entered c st) = cache_view x st"
  by (simp_all add: entered_def Let_def flag_simps obj_upd cache_view_def upd_obj_def set_flags_def
       clear_flags_def)



lemma peek_slow:
  assumes K: "kind (objs st c) = Computed" and R: "\<not> has (o_flags (objs st c)) RUNNING"
    and F: "\<not> fast_path c st"
  shows "peek (Suc n) c st =
           (case (if 0 < o_version (objs st c) then scan n (o_sources (objs st c)) (entered c st)
                  else Some (o_sources (objs st c), entered c st)) of
              None \<Rightarrow> None
            | Some (node, st5) \<Rightarrow>
               if 0 < o_version (objs st c) \<and> node = None then Some (returnComputed c st5)
               else recompute n c st5)"
proof -
  have R1: "\<not> has (o_flags (objs (clear_flags c NOTIFIED st) c)) RUNNING"
    using R by (simp add: flag_simps obj_upd)
  have S1: "\<not> (\<not> has (o_flags (objs (set_flags c RUNNING (clear_flags c NOTIFIED st)) c)) STALE \<and>
      o_targets (objs (set_flags c RUNNING (clear_flags c NOTIFIED st)) c) \<noteq> None)"
    using F by (simp add: fast_path_def flag_simps obj_upd)
  have G1: "o_globalVersion (objs (clear_flags c STALE (set_flags c RUNNING (clear_flags c NOTIFIED st))) c)
      \<noteq> globalVersion (clear_flags c STALE (set_flags c RUNNING (clear_flags c NOTIFIED st)))"
    using F by (simp add: fast_path_def clear_flags_def set_flags_def upd_obj_def)
  have V: "o_version (objs (entered c st) c) = o_version (objs st c)"
    "o_sources (objs (entered c st) c) = o_sources (objs st c)"
    by (simp_all add: entered_simps)
  show ?thesis
    unfolding engine_Suc_proj peek_unfold[OF K] V[symmetric]
    unfolding Let_def entered_def[unfolded Let_def, symmetric]
    using R1 S1 G1 by (simp only: if_False if_True simp_thms)
qed

lemma globals_upd [simp]:
  "globals (upd_obj r f st) = globals st"
  "globals (upd_node p g st) = globals st"
  "globals (upd_node_opt q g st) = globals st"
  "globals (set_flags r fl st) = globals st"
  "globals (clear_flags r fl st) = globals st"
  "globals (st\<lparr>nodes := ns\<rparr>) = globals st"
  "globals (st\<lparr>objs := os\<rparr>) = globals st"
  "globals (st\<lparr>nextNode := nn\<rparr>) = globals st"
  "globals (st\<lparr>batchedEffect := be\<rparr>) = globals st"
  by (simp_all add: globals_def upd_obj_def upd_node_def upd_node_opt_def set_flags_def
      clear_flags_def split: option.splits)

lemma globals_Signal_subscribe [simp]: "globals (Signal_subscribe s p st) = globals st"
  by (simp add: Signal_subscribe_def Let_def)

lemma globals_Signal_unsubscribe [simp]: "globals (Signal_unsubscribe s p st) = globals st"
  by (simp add: Signal_unsubscribe_def Let_def)









lemma globals_evalContext: "globals st' = globals st \<Longrightarrow> evalContext st' = evalContext st"
  by (simp add: globals_def)

















lemma edge_view_upd [simp]:
  "edge_view p (upd_obj r f st) = edge_view p st"
  "edge_view p (set_flags r fl st) = edge_view p st"
  "edge_view p (clear_flags r fl st) = edge_view p st"
  "edge_view p (upd_node q (\<lambda>x. x\<lparr>prevTarget := a\<rparr>) st) = edge_view p st"
  "edge_view p (upd_node q (\<lambda>x. x\<lparr>nextTarget := a\<rparr>) st) = edge_view p st"
  "edge_view p (upd_node_opt q' (\<lambda>x. x\<lparr>prevTarget := a\<rparr>) st) = edge_view p st"
  "edge_view p (upd_node_opt q' (\<lambda>x. x\<lparr>nextTarget := a\<rparr>) st) = edge_view p st"
  "edge_view p (st\<lparr>batchedEffect := be\<rparr>) = edge_view p st"
  "edge_view p (st\<lparr>nextError := ne\<rparr>) = edge_view p st"
  by (simp_all add: edge_view_def upd_obj_def upd_node_def upd_node_opt_def set_flags_def
      clear_flags_def split: option.splits)

lemma src_view_upd [simp]:
  "src_view r (upd_node q g st) = src_view r st"
  "src_view r (upd_node_opt q' g st) = src_view r st"
  "src_view r (set_flags r' fl st) = src_view r st"
  "src_view r (clear_flags r' fl st) = src_view r st"
  "src_view r (upd_obj r' (\<lambda>x. x\<lparr>o_targets := a\<rparr>) st) = src_view r st"
  "src_view r (upd_obj r' (\<lambda>x. x\<lparr>o_nextEffect := a\<rparr>) st) = src_view r st"
  "src_view r (st\<lparr>batchedEffect := be\<rparr>) = src_view r st"
  "src_view r (st\<lparr>nextError := ne\<rparr>) = src_view r st"
  by (simp_all add: src_view_def upd_obj_def upd_node_def upd_node_opt_def set_flags_def
      clear_flags_def split: option.splits)

lemma edge_view_Signal_subscribe [simp]: "edge_view p (Signal_subscribe s q st) = edge_view p st"
  by (simp add: Signal_subscribe_def Let_def)

lemma edge_view_Signal_unsubscribe [simp]: "edge_view p (Signal_unsubscribe s q st) = edge_view p st"
  by (simp add: Signal_unsubscribe_def Let_def)

lemma src_view_Signal_subscribe [simp]: "src_view r (Signal_subscribe s q st) = src_view r st"
  by (simp add: Signal_subscribe_def Let_def)

lemma src_view_Signal_unsubscribe [simp]: "src_view r (Signal_unsubscribe s q st) = src_view r st"
  by (simp add: Signal_unsubscribe_def Let_def)

lemma edge_view_subscribe:
  "subscribe n s p st = Some st' \<Longrightarrow> edge_view x st' = edge_view x st"
  "subscribe_sources n q st = Some st' \<Longrightarrow> edge_view x st' = edge_view x st"
  by (induction n s p st and n q st arbitrary: st' and st' rule: subscribe_subscribe_sources.induct)
     (auto simp: Let_def split: if_splits option.splits)

lemma src_view_subscribe:
  "subscribe n s p st = Some st' \<Longrightarrow> src_view x st' = src_view x st"
  "subscribe_sources n q st = Some st' \<Longrightarrow> src_view x st' = src_view x st"
  by (induction n s p st and n q st arbitrary: st' and st' rule: subscribe_subscribe_sources.induct)
     (auto simp: Let_def split: if_splits option.splits)

lemma edge_view_unsubscribe:
  "unsubscribe n s p st = Some st' \<Longrightarrow> edge_view x st' = edge_view x st"
  "unsubscribe_sources n q st = Some st' \<Longrightarrow> edge_view x st' = edge_view x st"
  by (induction n s p st and n q st arbitrary: st' and st' rule: unsubscribe_unsubscribe_sources.induct)
     (auto simp: Let_def split: if_splits option.splits)

lemma src_view_unsubscribe:
  "unsubscribe n s p st = Some st' \<Longrightarrow> src_view x st' = src_view x st"
  "unsubscribe_sources n q st = Some st' \<Longrightarrow> src_view x st' = src_view x st"
  by (induction n s p st and n q st arbitrary: st' and st' rule: unsubscribe_unsubscribe_sources.induct)
     (auto simp: Let_def split: if_splits option.splits)

lemma edge_view_notify:
  "notify n t st = Some st' \<Longrightarrow> edge_view x st' = edge_view x st"
  "notify_targets n q st = Some st' \<Longrightarrow> edge_view x st' = edge_view x st"
  by (induction n t st and n q st arbitrary: st' and st' rule: notify_notify_targets.induct)
     (auto simp: Let_def split: if_splits option.splits)

lemma edges_upd [simp]:
  "edges (upd_obj r f st) = edges st"
  "edges (set_flags r fl st) = edges st"
  "edges (clear_flags r fl st) = edges st"
  "edges (st\<lparr>batchedEffect := be\<rparr>) = edges st"
  "edges (st\<lparr>nextError := ne\<rparr>) = edges st"
  by (simp_all add: edges_def upd_obj_def set_flags_def clear_flags_def)


lemma subscribe_frame:
  "subscribe n s p st = Some st' \<Longrightarrow> edge_view x st' = edge_view x st \<and> src_view y st' = src_view y st"
  using edge_view_subscribe(1) src_view_subscribe(1) by blast

lemma track_head:
  assumes "evalContext st = Some ctx" and "track n s st = Some (Some p, st1)"
  shows "target (nodes st1 p) = ctx \<and> used (nodes st1 p) \<and> o_sources (objs st1 ctx) = Some p"
proof -
  have E: "target (nodes st1 p) = fst (snd (snd (snd (edge_view p st1))))"
    "used (nodes st1 p) = fst (snd (snd (snd (snd (snd (edge_view p st1))))))"
    "o_sources (objs st1 ctx) = snd (src_view ctx st1)"
    by (simp_all add: edge_view_def src_view_def)
  show ?thesis unfolding E using assms
    by (auto simp: track_def Let_def edge_view_def src_view_def upd_obj_def upd_node_def
        upd_node_opt_def
        split: if_splits option.splits
        dest!: subscribe_frame[where x=p and y=ctx])
qed

lemma notified_upd [simp]:
  "notified x (set_flags r NOTIFIED st) = (x = r \<or> notified x st)"
  "notified x (set_flags r (STALE OR NOTIFIED) st) = (x = r \<or> notified x st)"
  "notified x (upd_obj r (\<lambda>y. y\<lparr>o_nextEffect := a\<rparr>) st) = notified x st"
  "notified x (st\<lparr>batchedEffect := be\<rparr>) = notified x st"
  "notified x (st\<lparr>nextError := ne\<rparr>) = notified x st"
  by (auto simp add: notified_def set_flags_def upd_obj_def flag_simps)



lemma walk_edges:
  "edges st' = edges st \<Longrightarrow>
   walk n (\<lambda>p. nextTarget (nodes st' p)) q = walk n (\<lambda>p. nextTarget (nodes st p)) q"
  by (simp add: edges_def)



lemma sview_upd [simp]:
  "sview c (upd_node p g st) = sview c st"
  "sview c (upd_node_opt q g st) = sview c st"
  "sview c (set_flags r fl st) = sview c st"
  "sview c (clear_flags r fl st) = sview c st"
  "sview c (upd_obj r (\<lambda>x. x\<lparr>o_globalVersion := gv\<rparr>) st) = sview c st"
  "sview c (upd_obj r (\<lambda>x. x\<lparr>o_value := v\<rparr>) st) = sview c st"
  "sview c (upd_obj r (\<lambda>x. x\<lparr>o_version := o_version x + 1\<rparr>) st) = sview c st"
  "sview c (upd_obj r (\<lambda>x. x\<lparr>o_nextEffect := a\<rparr>) st) = sview c st"
  "sview c (st\<lparr>evalContext := ec\<rparr>) = sview c st"
  "sview c (st\<lparr>batchedEffect := be\<rparr>) = sview c st"
  "sview c (st\<lparr>batchDepth := bd\<rparr>) = sview c st"
  "sview c (st\<lparr>batchIteration := bi\<rparr>) = sview c st"
  "sview c (st\<lparr>globalVersion := gl\<rparr>) = sview c st"
  "sview c (st\<lparr>nextError := ne\<rparr>) = sview c st"
  by (simp_all add: sview_def upd_obj_def upd_node_def upd_node_opt_def set_flags_def
      clear_flags_def split: option.splits)

lemma sview_store_result [simp]: "sview c (store_result s out st) = sview c st"
  by (simp add: store_result_def Let_def)

lemma sview_returnComputed [simp]: "sview c (snd (returnComputed s st)) = sview c st"
  by (simp add: returnComputed_def Let_def)











text \<open>
  Claim C9, as stated: a write that raises the cycle error has mutated nothing, and a
  write of a value identical to the stored one never raises it. The second half fails for
  \<^verbatim>\<open>NaN\<close>: line 226 compares with \<^verbatim>\<open>!==\<close>, and a signal that holds
  \<^verbatim>\<open>NaN\<close> raises the cycle error when \<^verbatim>\<open>NaN\<close> is written to it while
  \<^verbatim>\<open>batchIteration\<close> is 101.
\<close>

theorem write_identical_counterexample:
  "signal_state 0 nan_guard_state = (NaN, 0) \<and> batchIteration nan_guard_state = 101 \<and>
   outcome (set_value 10 0 NaN nan_guard_state) = Some (Inl (Error 0 ''Cycle detected''))"
  by (simp add: nan_guard_state_def nan_state_def signal_state_def run_simps)

text \<open>
  Claim C9, amended. A write of a value that is not \<^verbatim>\<open>===\<close> the stored one while
  \<^verbatim>\<open>batchIteration\<close> is above 100 throws a new cycle error and leaves the store as it
  was (but for the error object made): no value stored, no version incremented, nobody
  notified. A write of a value that is \<^verbatim>\<open>===\<close> the stored one returns normally and
  changes nothing, whatever \<^verbatim>\<open>batchIteration\<close> is.
\<close>

theorem write_guard:
  assumes "kind (objs st s) = Signal"
  shows "(\<not> identical v (o_value (objs st s)) \<and> batchIteration st > 100 \<longrightarrow>
            set_value (Suc n) s v st =
              Some (Inl (Error (nextError st) ''Cycle detected''),
                    st\<lparr>nextError := Suc (nextError st)\<rparr>)) \<and>
         (identical v (o_value (objs st s)) \<longrightarrow> set_value (Suc n) s v st = Some (Inr (), st))"
  using assms by (simp add: engine_Suc_proj set_value_body_def cycleDetected_def throw_Error_def)

text \<open>Both cases on \<^verbatim>\<open>s = signal(0)\<close> with \<^verbatim>\<open>batchIteration\<close> at 101.\<close>

theorem write_guard_witness:
  "kind (objs guard_state 0) = Signal \<and> \<not> identical (Num 1) (o_value (objs guard_state 0)) \<and>
   identical (Num 0) (o_value (objs guard_state 0)) \<and> batchIteration guard_state > 100 \<and>
   set_value (Suc 0) 0 (Num 1) guard_state =
     Some (Inl (Error 0 ''Cycle detected''), guard_state\<lparr>nextError := Suc 0\<rparr>) \<and>
   set_value (Suc 0) 0 (Num 0) guard_state = Some (Inr (), guard_state)"
proof -
  have k: "kind (objs guard_state 0) = Signal"
    and v: "o_value (objs guard_state 0) = Num 0" and b: "batchIteration guard_state = 101"
    and e: "nextError guard_state = 0"
    by (simp_all add: guard_state_def run_simps)
  from write_guard[OF k, of "Num 1" 0] write_guard[OF k, of "Num 0" 0] k v b e
  show ?thesis by (simp add: identical_def)
qed




text \<open>
  Claim C10, as stated: in a tracked read the edge takes the version of the source in a
  \<^verbatim>\<open>finally\<close>, also when \<^verbatim>\<open>peek\<close> throws. It fails for the second read of a
  source in one evaluation, where \<^verbatim>\<open>getValue\<close> sets its node to \<^verbatim>\<open>undefined\<close>
  (line 153): \<^verbatim>\<open>c.peek()\<close> throws 7, and the edge from \<^verbatim>\<open>d\<close> to \<^verbatim>\<open>c\<close> is left
  at version 1 while \<^verbatim>\<open>d\<close>, recomputed by the second read, is at version 2.
\<close>

theorem repeated_read_counterexample:
  "outcome (peek 20 2 rereading_start) = Some (Inl (Num 7)) \<and>
   map_option (edge 0) (store_after (peek 20 2 rereading_start)) = Some (1, 2, 1) \<and>
   map_option (signal_state 1) (store_after (peek 20 2 rereading_start)) = Some (Num 7, 2)"
  by (simp add: rereading_start_def rereading_def recovering_def edge_def signal_state_def
      run_simps)

lemma track_some:
  assumes C: "evalContext st = Some ctx" and N: "\<not> repeated_read ctx s st"
    and T: "track n s st = Some (q, st1)"
  shows "q \<noteq> None"
proof (cases "case o_node (objs st s) of None \<Rightarrow> True | Some p \<Rightarrow> target (nodes st p) \<noteq> ctx")
  case True
  with C T show ?thesis
    by (simp add: track_def Let_def split: option.splits if_splits) auto
next
  case False
  then obtain p where P: "o_node (objs st s) = Some p" "target (nodes st p) = ctx"
    by (cases "o_node (objs st s)") auto
  with N have "\<not> used (nodes st p)" by (simp add: repeated_read_def)
  with C P have "\<exists>st'. track n s st = Some (Some p, st')"
    by (simp add: track_def Let_def)
  with T show ?thesis by auto
qed

lemma track_repeated:
  assumes C: "evalContext st = Some ctx" and R: "repeated_read ctx s st"
  shows "track n s st = Some (None, st)"
proof -
  from R obtain p where "o_node (objs st s) = Some p" "target (nodes st p) = ctx"
    "used (nodes st p)"
    by (cases "o_node (objs st s)") (auto simp: repeated_read_def)
  with C show ?thesis by (simp add: track_def Let_def)
qed

text \<open>
  Claim C10, amended. Under an evaluation context, when the first half of \<^verbatim>\<open>getValue\<close>
  has made or found the node \<open>p\<close> (a node of the context, at the head of its sources
  list), whatever \<^verbatim>\<open>peek\<close> gives, a value or an error, is the outcome of
  \<^verbatim>\<open>getValue\<close>, and the store is the one \<^verbatim>\<open>peek\<close> left with the version of the
  signal written to the node. In a repeated read of the signal in the same evaluation the
  outcome and the store are those of \<^verbatim>\<open>peek\<close>: nothing is written. And a read has no
  node to refresh exactly when it is a repeated one.
\<close>

theorem tracked_read_records_version:
  assumes C: "evalContext st = Some ctx"
  shows "(track n s st = Some (Some p, st1) \<and> peek n s st1 = Some (r, st2) \<longrightarrow>
            target (nodes st1 p) = ctx \<and> o_sources (objs st1 ctx) = Some p \<and>
            getValue (Suc n) s st =
              Some (r, upd_node p (\<lambda>x. x\<lparr>version := o_version (objs st2 s)\<rparr>) st2)) \<and>
         (repeated_read ctx s st \<and> peek n s st = Some (r, st2) \<longrightarrow>
            getValue (Suc n) s st = Some (r, st2)) \<and>
         (\<forall>q st1. track n s st = Some (q, st1) \<longrightarrow> (q = None \<longleftrightarrow> repeated_read ctx s st))"
proof (intro conjI impI allI)
  assume A: "track n s st = Some (Some p, st1) \<and> peek n s st1 = Some (r, st2)"
  then have T: "track n s st = Some (Some p, st1)" by simp
  from track_head[OF C T] show "target (nodes st1 p) = ctx" "o_sources (objs st1 ctx) = Some p"
    by simp_all
  from A show "getValue (Suc n) s st =
              Some (r, upd_node p (\<lambda>x. x\<lparr>version := o_version (objs st2 s)\<rparr>) st2)"
    by (simp add: engine_Suc_proj getValue_body_def upd_node_opt_def)
next
  assume A: "repeated_read ctx s st \<and> peek n s st = Some (r, st2)"
  with track_repeated[OF C, of s n] show "getValue (Suc n) s st = Some (r, st2)"
    by (simp add: engine_Suc_proj getValue_body_def upd_node_opt_def)
next
  fix q st1 assume T: "track n s st = Some (q, st1)"
  show "q = None \<longleftrightarrow> repeated_read ctx s st"
    using track_some[OF C _ T] track_repeated[OF C, of s n] T by auto
qed

text \<open>
  In the evaluation of \<^verbatim>\<open>c = computed(() => d.value)\<close>, where \<^verbatim>\<open>d\<close> throws 7:
  the first read of \<^verbatim>\<open>d\<close> throws 7 and leaves version 1 on the new edge, and a second
  read is a repeated one.
\<close>

theorem tracked_read_records_version_witness:
  "evalContext reading_state = Some 2 \<and>
   (\<exists>p st1 st2. track 9 1 reading_state = Some (Some p, st1) \<and>
      peek 9 1 st1 = Some (Inl (Num 7), st2) \<and> o_version (objs st2 1) = 1 \<and>
      target (nodes st1 p) = 2 \<and>
      getValue (Suc 9) 1 reading_state =
        Some (Inl (Num 7), upd_node p (\<lambda>x. x\<lparr>version := 1\<rparr>) st2) \<and>
      evalContext (upd_node p (\<lambda>x. x\<lparr>version := 1\<rparr>) st2) = Some 2 \<and>
      repeated_read 2 1 (upd_node p (\<lambda>x. x\<lparr>version := 1\<rparr>) st2) \<and>
      (\<exists>st3. peek 9 1 (upd_node p (\<lambda>x. x\<lparr>version := 1\<rparr>) st2) = Some (Inl (Num 7), st3) \<and>
         getValue (Suc 9) 1 (upd_node p (\<lambda>x. x\<lparr>version := 1\<rparr>) st2) = Some (Inl (Num 7), st3)))"
proof -
  have e: "evalContext reading_state = Some 2" by (simp add: reading_state_def)
  have "\<exists>p st1 st2. track 9 1 reading_state = Some (Some p, st1) \<and>
      peek 9 1 st1 = Some (Inl (Num 7), st2) \<and> o_version (objs st2 1) = 1 \<and>
      evalContext (upd_node p (\<lambda>x. x\<lparr>version := 1\<rparr>) st2) = Some 2 \<and>
      repeated_read 2 1 (upd_node p (\<lambda>x. x\<lparr>version := 1\<rparr>) st2) \<and>
      (\<exists>st3. peek 9 1 (upd_node p (\<lambda>x. x\<lparr>version := 1\<rparr>) st2) = Some (Inl (Num 7), st3))"
    by (simp add: reading_state_def throwing_start_def throwing_def repeated_read_def run_simps)
  then obtain p st1 st2 st3 where t: "track 9 1 reading_state = Some (Some p, st1)"
    and p: "peek 9 1 st1 = Some (Inl (Num 7), st2)" and v: "o_version (objs st2 1) = 1"
    and e2: "evalContext (upd_node p (\<lambda>x. x\<lparr>version := 1\<rparr>) st2) = Some 2"
    and rr: "repeated_read 2 1 (upd_node p (\<lambda>x. x\<lparr>version := 1\<rparr>) st2)"
    and p3: "peek 9 1 (upd_node p (\<lambda>x. x\<lparr>version := 1\<rparr>) st2) = Some (Inl (Num 7), st3)"
    by blast
  from tracked_read_records_version[OF e, of 9 1 p st1 "Inl (Num 7)" st2] t p v
  have 1: "target (nodes st1 p) = 2 \<and>
      getValue (Suc 9) 1 reading_state =
        Some (Inl (Num 7), upd_node p (\<lambda>x. x\<lparr>version := 1\<rparr>) st2)" by simp
  from tracked_read_records_version[OF e2, of 9 1 _ _ "Inl (Num 7)" st3] rr p3
  have 2: "getValue (Suc 9) 1 (upd_node p (\<lambda>x. x\<lparr>version := 1\<rparr>) st2) = Some (Inl (Num 7), st3)"
    by simp
  from e t p v 1 e2 rr p3 2 show ?thesis by blast
qed



lemma depth_upd [simp]:
  "depth (upd_obj r f st) = depth st"
  "depth (upd_node p g st) = depth st"
  "depth (upd_node_opt q g st) = depth st"
  "depth (set_flags r fl st) = depth st"
  "depth (clear_flags r fl st) = depth st"
  "depth (st\<lparr>evalContext := ec\<rparr>) = depth st"
  "depth (st\<lparr>batchedEffect := be\<rparr>) = depth st"
  "depth (st\<lparr>batchIteration := bi\<rparr>) = depth st"
  "depth (st\<lparr>globalVersion := gl\<rparr>) = depth st"
  "depth (st\<lparr>nextError := ne\<rparr>) = depth st"
  "depth (st\<lparr>batchDepth := d\<rparr>) = d"
  "depth (startBatch st) = depth st + 1"
  by (simp_all add: depth_def upd_obj_def upd_node_def upd_node_opt_def set_flags_def
      clear_flags_def startBatch_def split: option.splits)

lemma depth_store_result [simp]: "depth (store_result s out st) = depth st"
  by (simp add: store_result_def Let_def)

lemma depth_returnComputed [simp]: "depth (snd (returnComputed s st)) = depth st"
  by (simp add: returnComputed_def Let_def)










lemma pview_upd [simp]:
  "pview x (upd_node p g st) = pview x st"
  "pview x (upd_node_opt q g st) = pview x st"
  "pview x (set_flags r RUNNING st) = pview x st"
  "pview x (set_flags r STALE st) = pview x st"
  "pview x (set_flags r HAS_ERROR st) = pview x st"
  "pview x (set_flags r (STALE OR SHOULD_SUBSCRIBE) st) = pview x st"
  "pview x (clear_flags r RUNNING st) = pview x st"
  "pview x (clear_flags r STALE st) = pview x st"
  "pview x (clear_flags r HAS_ERROR st) = pview x st"
  "pview x (clear_flags r SHOULD_SUBSCRIBE st) = pview x st"
  "pview x (upd_obj r (\<lambda>y. y\<lparr>o_globalVersion := gv\<rparr>) st) = pview x st"
  "pview x (upd_obj r (\<lambda>y. y\<lparr>o_value := v\<rparr>) st) = pview x st"
  "pview x (upd_obj r (\<lambda>y. y\<lparr>o_version := o_version y + 1\<rparr>) st) = pview x st"
  "pview x (upd_obj r (\<lambda>y. y\<lparr>o_node := a\<rparr>) st) = pview x st"
  "pview x (upd_obj r (\<lambda>y. y\<lparr>o_targets := a\<rparr>) st) = pview x st"
  "pview x (upd_obj r (\<lambda>y. y\<lparr>o_sources := a\<rparr>) st) = pview x st"
  "pview x (st\<lparr>nodes := ns\<rparr>) = pview x st"
  "pview x (st\<lparr>nextNode := nn\<rparr>) = pview x st"
  "pview x (st\<lparr>evalContext := ec\<rparr>) = pview x st"
  "pview x (st\<lparr>batchedEffect := be\<rparr>) = pview x st"
  "pview x (st\<lparr>batchDepth := bd\<rparr>) = pview x st"
  "pview x (st\<lparr>batchIteration := bi\<rparr>) = pview x st"
  "pview x (st\<lparr>globalVersion := gl\<rparr>) = pview x st"
  "pview x (st\<lparr>nextError := ne\<rparr>) = pview x st"
  "pview x (startBatch st) = pview x st"
  by (simp_all add: pview_def upd_obj_def upd_node_def upd_node_opt_def set_flags_def
      clear_flags_def startBatch_def flag_simps split: option.splits)


lemma pview_store_result [simp]: "pview x (store_result s out st) = pview x st"
  by (simp add: store_result_def Let_def)

lemma pview_returnComputed [simp]: "pview x (snd (returnComputed s st)) = pview x st"
  by (simp add: returnComputed_def Let_def)

lemma pview_Signal_subscribe [simp]: "pview x (Signal_subscribe s p st) = pview x st"
  by (simp add: Signal_subscribe_def Let_def)

lemma pview_Signal_unsubscribe [simp]: "pview x (Signal_unsubscribe s p st) = pview x st"
  by (simp add: Signal_unsubscribe_def Let_def)

























lemma first_error_kept [simp]: "first_error (Some x) r = Some x"
  by (simp add: first_error_def split: sum.splits)

lemma capture_kept [simp]: "capture (Some x) r = Some x"
  by (simp add: capture_def)










lemma scan_circle:
  assumes a: "signal (nodes st pa) = sa" "nextSignal (nodes st pa) = Some pb"
      "o_version (objs st sa) = version (nodes st pa)" "kind (objs st sa) = Signal"
    and b: "signal (nodes st pb) = sb" "nextSignal (nodes st pb) = Some pa"
      "o_version (objs st sb) = version (nodes st pb)" "kind (objs st sb) = Signal"
  shows "scan n (Some pa) st = None \<and> scan n (Some pb) st = None"
proof (induction n)
  case 0
  show ?case by (simp add: engine_0_proj)
next
  case (Suc n)
  show ?case
  proof (cases n)
    case 0
    with a b show ?thesis by (simp add: engine_Suc_proj engine_0_proj scan_body_def)
  next
    case (Suc m)
    with a b Suc.IH show ?thesis
      by (simp add: engine_Suc_proj scan_body_def peek_body_def)
  qed
qed

text \<open>
  Claim C6: when no source has changed since the last read, a read returns the cached value
  without running the formula, by one of the fast paths or by the scan of the sources. At
  the script above it fails: \<^verbatim>\<open>c\<close> holds 5 at version 2, none of its edges has a
  changed source, the write to \<^verbatim>\<open>t\<close> has moved the global version so that neither
  fast path applies, and the scan runs round the circular sources list that the second
  evaluation left: the read of \<^verbatim>\<open>c\<close> does not return, whatever the fuel.
\<close>

theorem scan_of_circular_list_never_returns:
  "outcome switch_quiet = Some (Inr ()) \<and>
   map_option (cached 3) (store_after switch_quiet) = Some (2, Num 5, False) \<and>
   map_option (changed_edges 5 3) (store_after switch_quiet) = Some [] \<and>
   and_then (store_after switch_quiet) (peek n 3) = None"
proof -
  have "\<exists>st. switch_quiet = Some (Inr (), st) \<and> cached 3 st = (2, Num 5, False) \<and>
      changed_edges 5 3 st = [] \<and>
      kind (objs st 3) = Computed \<and> \<not> has (o_flags (objs st 3)) RUNNING \<and> \<not> fast_path 3 st \<and>
      0 < o_version (objs st 3) \<and> o_sources (objs st 3) = Some 0 \<and>
      signal (nodes st 0) = 1 \<and> nextSignal (nodes st 0) = Some 1 \<and>
      o_version (objs st 1) = version (nodes st 0) \<and> kind (objs st 1) = Signal \<and>
      signal (nodes st 1) = 2 \<and> nextSignal (nodes st 1) = Some 0 \<and>
      o_version (objs st 2) = version (nodes st 1) \<and> kind (objs st 2) = Signal"
    by (simp add: switch_quiet_def switch_run_def switch_start_def switch_reads_def
        changed_edges_def cached_def fast_path_def run_simps)
  then obtain st where S: "switch_quiet = Some (Inr (), st)"
    and C: "cached 3 st = (2, Num 5, False)" and U: "changed_edges 5 3 st = []"
    and K: "kind (objs st 3) = Computed" and R: "\<not> has (o_flags (objs st 3)) RUNNING"
    and F: "\<not> fast_path 3 st" and V: "0 < o_version (objs st 3)"
    and H: "o_sources (objs st 3) = Some 0"
    and a: "signal (nodes st 0) = 1" "nextSignal (nodes st 0) = Some 1"
      "o_version (objs st 1) = version (nodes st 0)" "kind (objs st 1) = Signal"
    and b: "signal (nodes st 1) = 2" "nextSignal (nodes st 1) = Some 0"
      "o_version (objs st 2) = version (nodes st 1)" "kind (objs st 2) = Signal"
    by blast
  have P: "peek n 3 st = None"
  proof (cases n)
    case 0
    then show ?thesis by (simp add: engine_0_proj)
  next
    case (Suc m)
    have "scan m (Some 0) (entered 3 st) = None"
      using scan_circle[of "entered 3 st" 0 1 1 2 m] a b by (simp add: entered_simps)
    with peek_slow[OF K R F, of m] V H Suc show ?thesis by simp
  qed
  show ?thesis unfolding S using C U P by (simp add: outcome_def store_after_def and_then_def)
qed













end
